theory Spec2Isabelle
  imports Main "HOL-Library.Word" "HOL-Library.AList"
begin

section \<open>Errors\<close>

text \<open>
  The session's \<open>status\<close> field holds one of the strings \<open>connecting\<close>,
  \<open>connected\<close>, \<open>error\<close>, \<open>closed\<close>.
\<close>

datatype status = Connecting | Connected | Errored | Closed

text \<open>
  Every \<open>throw\<close> and every rejection of the source, by what its message says:
  the range error of a buffer write, the session limit, the 15 s connect deadline, an
  error of the transport, a close of the transport with its code, the response
  deadline with the configured delay, a manual close, an \<open>error\<close> event of the
  remote service, an unknown session id, a session whose status is \<open>error\<close> or
  \<open>closed\<close>, and the error \<open>ws.send\<close> throws on a socket that is still connecting
  (\<open>WebSocket is not open: readyState 0 (CONNECTING)\<close>).
\<close>

datatype js_error =
    RangeError
  | LimitReached nat
  | ConnectTimeout
  | TransportError string
  | ClosedByPeer nat
  | ResponseTimeout nat
  | ClosedManually
  | OpenAIError string
  | SessionNotFound string
  | SessionUnavailable status
  | WebSocketNotOpen

section \<open>Audio utilities (utils/audio.js)\<close>

text \<open>
  A Node \<open>Buffer\<close> is a sequence of octets. JavaScript numbers that hold sizes,
  rates and offsets are modelled as natural numbers.
\<close>

type_synonym byte = "8 word"

subsection \<open>Base64, as \<open>Buffer.from(s, 'base64')\<close> and \<open>buf.toString('base64')\<close> do it\<close>

text \<open>
  The two conversions belong to the Node runtime, not to the repository. The encoder is
  the padded RFC 4648 one. The decoder is Node's lenient one: it stops at the first
  \<open>=\<close>, skips every character outside the alphabet, accepts the URL-safe \<open>-\<close> and
  \<open>_\<close>, and emits one octet for two trailing sextets, two for three.
\<close>

definition b64_char :: "nat \<Rightarrow> char" where
  "b64_char i =
     (if i < 26 then char_of (65 + i)
      else if i < 52 then char_of (71 + i)
      else if i < 62 then char_of (i - 4)
      else if i = 62 then CHR ''+'' else CHR ''/'')"

definition unbase64 :: "char \<Rightarrow> nat option" where
  "unbase64 c =
     (let n = (of_char c :: nat) in
      if 65 \<le> n \<and> n \<le> 90 then Some (n - 65)
      else if 97 \<le> n \<and> n \<le> 122 then Some (n - 71)
      else if 48 \<le> n \<and> n \<le> 57 then Some (n + 4)
      else if n = 43 \<or> n = 45 then Some 62
      else if n = 47 \<or> n = 95 then Some 63
      else None)"

fun bytes_to_sextets :: "byte list \<Rightarrow> nat list" where
  "bytes_to_sextets (a # b # c # r) =
     (unat a div 4) # ((unat a mod 4) * 16 + unat b div 16) #
     ((unat b mod 16) * 4 + unat c div 64) # (unat c mod 64) # bytes_to_sextets r"
| "bytes_to_sextets [a, b] =
     [unat a div 4, (unat a mod 4) * 16 + unat b div 16, (unat b mod 16) * 4]"
| "bytes_to_sextets [a] = [unat a div 4, (unat a mod 4) * 16]"
| "bytes_to_sextets [] = []"

definition b64_padding :: "nat \<Rightarrow> string" where
  "b64_padding n = replicate ((3 - n mod 3) mod 3) (CHR ''='')"

definition toString_base64 :: "byte list \<Rightarrow> string" where
  "toString_base64 buf = map b64_char (bytes_to_sextets buf) @ b64_padding (length buf)"

fun sextets_to_bytes :: "nat list \<Rightarrow> byte list" where
  "sextets_to_bytes (p # q # r # s # rest) =
     word_of_nat (p * 4 + q div 16) # word_of_nat ((q mod 16) * 16 + r div 4) #
     word_of_nat ((r mod 4) * 64 + s) # sextets_to_bytes rest"
| "sextets_to_bytes [p, q, r] =
     [word_of_nat (p * 4 + q div 16), word_of_nat ((q mod 16) * 16 + r div 4)]"
| "sextets_to_bytes [p, q] = [word_of_nat (p * 4 + q div 16)]"
| "sextets_to_bytes [p] = []"
| "sextets_to_bytes [] = []"

definition Buffer_from_base64 :: "string \<Rightarrow> byte list" where
  "Buffer_from_base64 s =
     sextets_to_bytes (List.map_filter unbase64 (takeWhile (\<lambda>c. c \<noteq> CHR ''='') s))"

subsection \<open>Buffer writes\<close>

definition Buffer_alloc :: "nat \<Rightarrow> byte list" where
  "Buffer_alloc n = replicate n 0"

definition overwrite :: "byte list \<Rightarrow> nat \<Rightarrow> byte list \<Rightarrow> byte list" where
  "overwrite buf off bs =
     take off buf @ take (length buf - off) bs @ drop (off + length bs) buf"

text \<open>\<open>buf.write(string, offset)\<close> for ASCII text: what does not fit is cut off.\<close>

definition Buffer_write :: "string \<Rightarrow> byte list \<Rightarrow> nat \<Rightarrow> js_error + byte list" where
  "Buffer_write s buf off =
     (if length buf < off then Inl RangeError
      else Inr (overwrite buf off (map (\<lambda>c. word_of_nat (of_char c)) s)))"

text \<open>
  \<open>buf.writeUInt32LE(value, offset)\<close> and \<open>buf.writeUInt16LE(value, offset)\<close> throw
  a range error when the value does not fit the field or the field does not fit the
  buffer.
\<close>

definition writeUInt32LE :: "nat \<Rightarrow> byte list \<Rightarrow> nat \<Rightarrow> js_error + byte list" where
  "writeUInt32LE v buf off =
     (if 2 ^ 32 \<le> v \<or> length buf < off + 4 then Inl RangeError
      else Inr (overwrite buf off
        [word_of_nat v, word_of_nat (v div 2 ^ 8), word_of_nat (v div 2 ^ 16),
         word_of_nat (v div 2 ^ 24)]))"

definition writeUInt16LE :: "nat \<Rightarrow> byte list \<Rightarrow> nat \<Rightarrow> js_error + byte list" where
  "writeUInt16LE v buf off =
     (if 2 ^ 16 \<le> v \<or> length buf < off + 2 then Inl RangeError
      else Inr (overwrite buf off [word_of_nat v, word_of_nat (v div 2 ^ 8)]))"

text \<open>
  The header is filled by a sequence of statements \<open>header.writeX(v, offset); offset += k\<close>;
  \<open>run_writes\<close> threads the buffer and the offset through them and stops at the first throw.
\<close>

fun run_writes ::
  "((byte list \<Rightarrow> nat \<Rightarrow> js_error + byte list) \<times> nat) list \<Rightarrow> byte list \<Rightarrow> nat
     \<Rightarrow> js_error + byte list" where
  "run_writes [] buf off = Inr buf"
| "run_writes ((w, k) # ws) buf off =
     (case w buf off of Inl e \<Rightarrow> Inl e | Inr buf' \<Rightarrow> run_writes ws buf' (off + k))"

subsection \<open>The exported functions\<close>

text \<open>
  \<open>addWavHeader(pcmData, sampleRate = 24000, numChannels = 1, bitsPerSample = 16)\<close>.
  The quotient \<open>bitsPerSample / 8\<close> is exact for the bit depth the repository passes
  (16), which is all the embedding covers of the floating-point division.
  The last write is not followed by an increment of \<open>offset\<close>.
\<close>

definition addWavHeader :: "byte list \<Rightarrow> nat \<Rightarrow> nat \<Rightarrow> nat \<Rightarrow> js_error + byte list" where
  "addWavHeader pcmData sampleRate numChannels bitsPerSample =
     (let byteRate = sampleRate * numChannels * (bitsPerSample div 8);
          blockAlign = numChannels * (bitsPerSample div 8);
          dataSize = length pcmData;
          headerSize = 44;
          header = Buffer_alloc headerSize
      in case run_writes
           [(Buffer_write ''RIFF'', 4),
            (writeUInt32LE (36 + dataSize), 4),
            (Buffer_write ''WAVE'', 4),
            (Buffer_write ''fmt '', 4),
            (writeUInt32LE 16, 4),
            (writeUInt16LE 1, 2),
            (writeUInt16LE numChannels, 2),
            (writeUInt32LE sampleRate, 4),
            (writeUInt32LE byteRate, 4),
            (writeUInt16LE blockAlign, 2),
            (writeUInt16LE bitsPerSample, 2),
            (Buffer_write ''data'', 4),
            (writeUInt32LE dataSize, 0)] header 0 of
           Inl e \<Rightarrow> Inl e
         | Inr header' \<Rightarrow> Inr (header' @ pcmData))"

text \<open>\<open>pcm16ToWavBase64(pcm16Base64, sampleRate = 24000)\<close>\<close>

definition pcm16ToWavBase64 :: "string \<Rightarrow> nat \<Rightarrow> js_error + string" where
  "pcm16ToWavBase64 pcm16Base64 sampleRate =
     (let pcmBuffer = Buffer_from_base64 pcm16Base64 in
      case addWavHeader pcmBuffer sampleRate 1 16 of
        Inl e \<Rightarrow> Inl e
      | Inr wavBuffer \<Rightarrow> Inr (toString_base64 wavBuffer))"

text \<open>\<open>wavBase64ToPcm16Base64(wavBase64)\<close>: \<open>wavBuffer.slice(44)\<close> drops 44 octets.\<close>

definition wavBase64ToPcm16Base64 :: "string \<Rightarrow> string" where
  "wavBase64ToPcm16Base64 wavBase64 =
     (let wavBuffer = Buffer_from_base64 wavBase64;
          pcmData = drop 44 wavBuffer
      in toString_base64 pcmData)"

section \<open>Session manager (session-manager.js)\<close>

text \<open>
  JavaScript strings are lists of characters; the code units used by the source's
  literals are below 256. The clock (\<open>Date.now()\<close>, \<open>new Date()\<close>) is an input of
  every call that reads it, read once per call, in milliseconds.
\<close>

subsection \<open>Data\<close>

text \<open>An entry of \<open>conversationHistory\<close>; the optional keys are absent as \<open>None\<close>.\<close>

record turn =
  role :: string
  content :: string
  timestamp :: nat
  content_type :: "string option"
  has_audio :: "bool option"

text \<open>The \<open>responseBuffer\<close> object of a call.\<close>

record response_buffer =
  textDelta :: string
  audioDelta :: "string list"
  inputTranscript :: string
  eventId :: "string option"
  itemId :: "string option"

text \<open>What \<open>sendText\<close> and \<open>sendAudio\<close> resolve with.\<close>

record reply =
  response_text :: string
  input_transcript :: "string option"
  duration_ms :: int
  session_id :: string
  request_id :: string
  audio_base64 :: "string option"
  audio_format :: "string option"
  audio_sample_rate :: "nat option"

text \<open>What \<open>createSession\<close> resolves with.\<close>

record created =
  new_session_id :: string
  new_status :: string
  new_model :: string
  new_voice :: string
  instructions_preview :: string
  created_at :: nat

text \<open>
  A promise is pending (\<open>None\<close>) or settled; once settled it keeps its value, as
  calling \<open>resolve\<close> or \<open>reject\<close> again has no effect in JavaScript.
\<close>

datatype settled = ResolvedCreated created | ResolvedReply reply | Rejected js_error

text \<open>The frames handed to \<open>ws.send\<close>, by their \<open>type\<close> and the fields that vary.\<close>

datatype outbound =
    SessionUpdate string string
  | SessionUpdateInstructions string
  | ConversationItemCreate string string
  | ResponseCreate string "string list"
  | InputAudioBufferClear
  | InputAudioBufferAppend string
  | InputAudioBufferCommit string

text \<open>
  An entry of \<open>pendingResponses\<close>. Its \<open>resolve\<close> and \<open>reject\<close> closures are kept as
  what they capture: which method built them (with the text of \<open>sendText\<close>), the
  \<open>options.returnAudio\<close> the caller passed (\<open>None\<close> when omitted), the session
  object, the session id, the request id, the start time, the handle of the response
  timer and the promise of the call.
\<close>

datatype origin = FromText string | FromAudio

record pending =
  origin :: origin
  options_returnAudio :: "bool option"
  captured_session :: nat
  captured_sessionId :: string
  captured_requestId :: string
  startTime :: nat
  timeout :: nat
  promise :: nat
  buffer :: response_buffer
  returnAudio :: bool
  isAudioInput :: bool

text \<open>The \<open>readyState\<close> of a socket of the \<open>ws\<close> package.\<close>

datatype ready_state = CONNECTING | OPEN | CLOSING | CLOSED

text \<open>
  The \<open>sessionState\<close> object. The transport \<open>ws\<close> is owned by it and is kept as its
  \<open>readyState\<close>, the frames it has put on the wire so far and whether \<open>terminate\<close>
  was called. The handlers registered on the transport capture the constants
  \<open>instructions\<close>, \<open>connectTimeout\<close> and the \<open>resolve\<close>/\<open>reject\<close> pair of the
  promise of \<open>createSession\<close>: the last three fields.
\<close>

record session =
  sid :: string
  ws_readyState :: ready_state
  ws_sent :: "outbound list"
  ws_terminated :: bool
  status :: status
  instructions :: string
  voice :: string
  model :: string
  metadata :: "(string \<times> string) list"
  createdAt :: nat
  lastActivityAt :: nat
  conversationHistory :: "turn list"
  pendingResponses :: "(string \<times> pending) list"
  captured_instructions :: string
  connectTimeout :: nat
  createPromise :: nat

record config =
  cfg_model :: string
  defaultVoice :: string
  responseTimeoutMs :: nat
  sessionMaxIdleMs :: nat
  defaultInstructions :: string
  maxSessions :: nat

text \<open>
  What a timer does when it fires: the connect deadline of a session object, or the
  response deadline of a call (session object, request id, promise of the call).
\<close>

datatype timer_action = ConnectDeadline nat | ResponseDeadline nat string nat

text \<open>
  The manager. \<open>sessions\<close> is the \<open>Map\<close> from session id to session object, in
  insertion order; the objects live in \<open>heap\<close> under their references, since the
  handlers of a transport keep their object also when the map no longer points to it.
  \<open>timers\<close> holds the armed timers with their delay. References, promises and timer
  handles are drawn from \<open>next_ref\<close>.
\<close>

record manager =
  config :: config
  sessions :: "(string \<times> nat) list"
  heap :: "nat \<Rightarrow> session"
  promises :: "nat \<Rightarrow> settled option"
  timers :: "nat \<Rightarrow> (nat \<times> timer_action) option"
  next_ref :: nat

subsection \<open>Runtime primitives\<close>

text \<open>
  A JavaScript \<open>Map\<close> keeps insertion order: \<open>set\<close> on a present key replaces the value
  in place and appends otherwise (\<open>AList.update\<close>), \<open>delete\<close> removes the key
  (\<open>AList.delete\<close>), \<open>get\<close> is \<open>map_of\<close>.
\<close>

definition new_promise :: "manager \<Rightarrow> manager" where
  "new_promise st =
     st\<lparr>promises := (promises st)(next_ref st := None), next_ref := Suc (next_ref st)\<rparr>"

definition settle :: "nat \<Rightarrow> settled \<Rightarrow> manager \<Rightarrow> manager" where
  "settle p v st =
     (case promises st p of
        None \<Rightarrow> st\<lparr>promises := (promises st)(p \<mapsto> v)\<rparr>
      | Some _ \<Rightarrow> st)"

definition setTimeout :: "nat \<Rightarrow> timer_action \<Rightarrow> manager \<Rightarrow> manager" where
  "setTimeout delay action st =
     st\<lparr>timers := (timers st)(next_ref st \<mapsto> (delay, action)), next_ref := Suc (next_ref st)\<rparr>"

definition clearTimeout :: "nat \<Rightarrow> manager \<Rightarrow> manager" where
  "clearTimeout t st = st\<lparr>timers := (timers st)(t := None)\<rparr>"

definition upd_session :: "nat \<Rightarrow> (session \<Rightarrow> session) \<Rightarrow> manager \<Rightarrow> manager" where
  "upd_session h f st = st\<lparr>heap := (heap st)(h := f (heap st h))\<rparr>"

text \<open>
  \<open>ws.send(data)\<close> of the \<open>ws\<close> package, called without a callback as the source
  does: it throws while the socket is still connecting, puts the frame on the wire
  when the socket is open, and drops the frame without a throw once the socket is
  closing or closed.
\<close>

definition ws_send :: "nat \<Rightarrow> outbound \<Rightarrow> manager \<Rightarrow> js_error + manager" where
  "ws_send h frame st =
     (case ws_readyState (heap st h) of
        CONNECTING \<Rightarrow> Inl WebSocketNotOpen
      | OPEN \<Rightarrow> Inr (upd_session h (\<lambda>s. s\<lparr>ws_sent := ws_sent s @ [frame]\<rparr>) st)
      | CLOSING \<Rightarrow> Inr st
      | CLOSED \<Rightarrow> Inr st)"

text \<open>
  A run of \<open>ws.send\<close> statements: the first throw ends it. The result is the error
  thrown, if any, and the state reached.
\<close>

fun send_frames :: "nat \<Rightarrow> outbound list \<Rightarrow> manager \<Rightarrow> js_error option \<times> manager" where
  "send_frames h [] st = (None, st)"
| "send_frames h (frame # frames) st =
     (case ws_send h frame st of
        Inl e \<Rightarrow> (Some e, st)
      | Inr st' \<Rightarrow> send_frames h frames st')"

text \<open>\<open>ws.terminate()\<close>: a socket that is not yet closed starts closing.\<close>

definition ws_terminate :: "nat \<Rightarrow> manager \<Rightarrow> manager" where
  "ws_terminate h st =
     upd_session h (\<lambda>s. s\<lparr>ws_terminated := True,
       ws_readyState := (if ws_readyState s = CLOSED then CLOSED else CLOSING)\<rparr>) st"

text \<open>\<open>a || b\<close> on strings: \<open>undefined\<close> and the empty string are falsy.\<close>

definition or_else :: "string option \<Rightarrow> string \<Rightarrow> string" where
  "or_else a b = (case a of None \<Rightarrow> b | Some s \<Rightarrow> if s = [] then b else s)"

subsection \<open>The constructor\<close>

text \<open>
  \<open>config\<close> and \<open>process.env\<close> as the settings the constructor reads (the API key only
  goes into the headers of the transport). A number given in \<open>config\<close> is falsy when
  0; an environment variable is a decimal string, falsy only when unset or empty.
\<close>

record settings =
  set_model :: "string option"
  set_defaultVoice :: "string option"
  set_responseTimeoutMs :: "nat option"
  set_sessionMaxIdleMs :: "nat option"
  set_defaultInstructions :: "string option"
  set_maxSessions :: "nat option"

definition num_setting :: "nat option \<Rightarrow> nat option \<Rightarrow> nat \<Rightarrow> nat" where
  "num_setting c e d =
     (let from_env = (case e of None \<Rightarrow> d | Some m \<Rightarrow> m) in
      case c of None \<Rightarrow> from_env | Some n \<Rightarrow> if n = 0 then from_env else n)"

definition default_instructions_text :: string where
  "default_instructions_text = ''Eres un asistente '' @ [CHR 0xFA] @ ''til.''"

text \<open>What a reference holds before an object is created under it.\<close>

definition unallocated :: session where
  "unallocated =
     \<lparr>sid = [], ws_readyState = CLOSED, ws_sent = [], ws_terminated = False,
      status = Closed, instructions = [],
      voice = [], model = [], metadata = [], createdAt = 0, lastActivityAt = 0,
      conversationHistory = [], pendingResponses = [], captured_instructions = [],
      connectTimeout = 0, createPromise = 0\<rparr>"

definition SessionManager :: "settings \<Rightarrow> settings \<Rightarrow> manager" where
  "SessionManager cfg env =
     \<lparr>config =
        \<lparr>cfg_model = or_else (set_model cfg)
           (or_else (set_model env) ''gpt-4o-mini-realtime-preview''),
         defaultVoice = or_else (set_defaultVoice cfg) (or_else (set_defaultVoice env) ''alloy''),
         responseTimeoutMs =
           num_setting (set_responseTimeoutMs cfg) (set_responseTimeoutMs env) 30000,
         sessionMaxIdleMs =
           num_setting (set_sessionMaxIdleMs cfg) (set_sessionMaxIdleMs env) 300000,
         defaultInstructions = or_else (set_defaultInstructions cfg)
           (or_else (set_defaultInstructions env) default_instructions_text),
         maxSessions = num_setting (set_maxSessions cfg) (set_maxSessions env) 0\<rparr>,
      sessions = [],
      heap = (\<lambda>_. unallocated),
      promises = (\<lambda>_. None),
      timers = (\<lambda>_. None),
      next_ref = 0\<rparr>"

subsection \<open>createSession and the handlers of the transport\<close>

record create_options =
  opt_sessionId :: "string option"
  opt_voice :: "string option"
  opt_instructions :: "string option"
  opt_metadata :: "(string \<times> string) list option"

text \<open>
  \<open>createSession(options)\<close>, with the value \<open>uuidv4()\<close> would return and the clock.
  The result is the promise of the call and the new state. The session object takes
  the reference \<open>h\<close>; the connect timer is armed right after it and so has handle
  \<open>Suc h\<close>. \<open>this.sessions.set(sessionId, sessionState)\<close> is not preceded by any check
  of the key.
\<close>

definition createSession :: "create_options \<Rightarrow> string \<Rightarrow> nat \<Rightarrow> manager \<Rightarrow> nat \<times> manager" where
  "createSession options uuid now st0 =
     (let p = next_ref st0;
          st1 = new_promise st0
      in if 0 < maxSessions (config st1) \<and> maxSessions (config st1) \<le> length (sessions st1)
         then (p, settle p (Rejected (LimitReached (maxSessions (config st1)))) st1)
         else
           let sessionId = or_else (opt_sessionId options) uuid;
               voice' = or_else (opt_voice options) (defaultVoice (config st1));
               instructions' = or_else (opt_instructions options) (defaultInstructions (config st1));
               h = next_ref st1;
               sessionState =
                 \<lparr>sid = sessionId, ws_readyState = CONNECTING, ws_sent = [],
                  ws_terminated = False, status = Connecting,
                  instructions = instructions', voice = voice', model = cfg_model (config st1),
                  metadata = (case opt_metadata options of None \<Rightarrow> [] | Some m \<Rightarrow> m),
                  createdAt = now, lastActivityAt = now, conversationHistory = [],
                  pendingResponses = [], captured_instructions = instructions',
                  connectTimeout = Suc h, createPromise = p\<rparr>;
               st2 = st1\<lparr>heap := (heap st1)(h := sessionState), next_ref := Suc h\<rparr>;
               st3 = st2\<lparr>sessions := AList.update sessionId h (sessions st2)\<rparr>;
               st4 = setTimeout 15000 (ConnectDeadline h) st3
           in (p, st4))"

text \<open>\<open>pending.reject(err)\<close>: \<open>clearTimeout(timeout); reject(err)\<close>.\<close>

definition pending_reject :: "pending \<Rightarrow> js_error \<Rightarrow> manager \<Rightarrow> manager" where
  "pending_reject pd err st = settle (promise pd) (Rejected err) (clearTimeout (timeout pd) st)"

text \<open>\<open>_rejectAllPending(session, err)\<close>\<close>

definition rejectAllPending :: "nat \<Rightarrow> js_error \<Rightarrow> manager \<Rightarrow> manager" where
  "rejectAllPending h err st =
     (let st' = fold (\<lambda>entry. pending_reject (snd entry) err) (pendingResponses (heap st h)) st
      in upd_session h (\<lambda>s. s\<lparr>pendingResponses := []\<rparr>) st')"

text \<open>
  \<open>ws.on('open', ...)\<close> of the session object \<open>h\<close>. The package emits \<open>open\<close> when
  the socket has become open, so the \<open>ws.send\<close> of the handler does not throw; were it
  to throw, the handler would end there.
\<close>

definition ws_on_open :: "nat \<Rightarrow> manager \<Rightarrow> manager" where
  "ws_on_open h st =
     (let st0 = upd_session h (\<lambda>s. s\<lparr>ws_readyState := OPEN\<rparr>) st;
          s = heap st0 h;
          st1 = clearTimeout (connectTimeout s) st0;
          st2 = upd_session h (\<lambda>s. s\<lparr>status := Connected\<rparr>) st1
      in case ws_send h (SessionUpdate (captured_instructions s) (voice s)) st2 of
           Inl e \<Rightarrow> st2
         | Inr st3 \<Rightarrow>
             settle (createPromise s)
               (ResolvedCreated
                 \<lparr>new_session_id = sid s, new_status = ''ready'',
                  new_model = cfg_model (config st3), new_voice = voice s,
                  instructions_preview = take 100 (captured_instructions s)
                    @ (if 100 < length (captured_instructions s) then ''...'' else ''''),
                  created_at = createdAt s\<rparr>) st3)"

text \<open>
  \<open>ws.on('error', ...)\<close>: the status is assigned \<open>error\<close> first, and then compared
  with \<open>connecting\<close>. The package emits \<open>error\<close> on a socket it has started to
  close.
\<close>

definition ws_on_error :: "nat \<Rightarrow> js_error \<Rightarrow> manager \<Rightarrow> manager" where
  "ws_on_error h err st =
     (let st0 = upd_session h (\<lambda>s. s\<lparr>ws_readyState :=
                  (if ws_readyState s = CLOSED then CLOSED else CLOSING)\<rparr>) st;
          s = heap st0 h;
          st1 = clearTimeout (connectTimeout s) st0;
          st2 = upd_session h (\<lambda>s. s\<lparr>status := Errored\<rparr>) st1;
          st3 = rejectAllPending h err st2
      in if status (heap st3 h) = Connecting
         then settle (createPromise s) (Rejected err)
                (st3\<lparr>sessions := AList.delete (sid s) (sessions st3)\<rparr>)
         else st3)"

text \<open>\<open>ws.on('close', ...)\<close> with the close code; the socket is closed by then.\<close>

definition ws_on_close :: "nat \<Rightarrow> nat \<Rightarrow> manager \<Rightarrow> manager" where
  "ws_on_close h code st =
     (let st0 = upd_session h (\<lambda>s. s\<lparr>ws_readyState := CLOSED\<rparr>) st;
          s = heap st0 h;
          st1 = upd_session h (\<lambda>s. s\<lparr>status := Closed\<rparr>) st0;
          st2 = rejectAllPending h (ClosedByPeer code) st1
      in st2\<lparr>sessions := AList.delete (sid s) (sessions st2)\<rparr>)"

subsection \<open>Internal lookups\<close>

text \<open>\<open>_getSession(sessionId)\<close>, which throws.\<close>

definition getSession_or_throw :: "string \<Rightarrow> manager \<Rightarrow> js_error + nat" where
  "getSession_or_throw sessionId st =
     (case map_of (sessions st) sessionId of
        None \<Rightarrow> Inl (SessionNotFound sessionId)
      | Some h \<Rightarrow>
          if status (heap st h) = Closed \<or> status (heap st h) = Errored
          then Inl (SessionUnavailable (status (heap st h)))
          else Inr h)"

text \<open>\<open>_getLatestPending(session)\<close> and \<open>_getLatestPendingId(session)\<close>\<close>

definition getLatestPending :: "session \<Rightarrow> pending option" where
  "getLatestPending s =
     (let entries = pendingResponses s in
      if length entries = 0 then None else Some (snd (entries ! (length entries - 1))))"

definition getLatestPendingId :: "session \<Rightarrow> string option" where
  "getLatestPendingId s =
     (let entries = map fst (pendingResponses s) in
      if length entries = 0 then None else Some (entries ! (length entries - 1)))"

text \<open>
  A write to \<open>pending.buffer\<close> through the reference \<open>_getLatestPending\<close> returned:
  the last entry of the map of the session object \<open>h\<close> gets the new buffer.
\<close>

definition write_latest_buffer :: "nat \<Rightarrow> response_buffer \<Rightarrow> manager \<Rightarrow> manager" where
  "write_latest_buffer h b st =
     upd_session h (\<lambda>s. s\<lparr>pendingResponses :=
       (pendingResponses s)[length (pendingResponses s) - 1 :=
         (fst (last (pendingResponses s)), (snd (last (pendingResponses s)))\<lparr>buffer := b\<rparr>)]\<rparr>) st"

subsection \<open>Resolving a call\<close>

text \<open>\<open>event.delta || ''\<close>\<close>

definition or_empty :: "string option \<Rightarrow> string" where
  "or_empty d = or_else d ''''"

text \<open>
  The \<open>result\<close> object the \<open>resolve\<close> closure of a call builds from the buffer: the one
  of \<open>sendText\<close> adds the audio keys when \<open>options.returnAudio\<close> is truthy, the one of
  \<open>sendAudio\<close> when \<open>options.returnAudio !== false\<close>, and both only when chunks were
  collected.
\<close>

definition make_result :: "pending \<Rightarrow> response_buffer \<Rightarrow> nat \<Rightarrow> reply" where
  "make_result pd data now =
     (let with_audio =
            (case origin pd of
               FromText text \<Rightarrow> options_returnAudio pd = Some True \<and> 0 < length (audioDelta data)
             | FromAudio \<Rightarrow> options_returnAudio pd \<noteq> Some False \<and> 0 < length (audioDelta data))
      in \<lparr>response_text = textDelta data,
          input_transcript =
            (case origin pd of FromText text \<Rightarrow> None | FromAudio \<Rightarrow> Some (inputTranscript data)),
          duration_ms = int now - int (startTime pd),
          session_id = captured_sessionId pd,
          request_id = captured_requestId pd,
          audio_base64 = (if with_audio then Some (concat (audioDelta data)) else None),
          audio_format = (if with_audio then Some ''pcm16'' else None),
          audio_sample_rate = (if with_audio then Some 24000 else None)\<rparr>)"

text \<open>The two entries the \<open>resolve\<close> closure pushes to the history.\<close>

definition history_turns :: "pending \<Rightarrow> response_buffer \<Rightarrow> nat \<Rightarrow> turn list" where
  "history_turns pd data now =
     [(case origin pd of
         FromText text \<Rightarrow>
           \<lparr>role = ''user'', content = text, timestamp = now, content_type = None,
            has_audio = None\<rparr>
       | FromAudio \<Rightarrow>
           \<lparr>role = ''user'', content = or_else (Some (inputTranscript data)) ''[audio]'',
            timestamp = now, content_type = Some ''audio'', has_audio = None\<rparr>),
      \<lparr>role = ''assistant'', content = textDelta data, timestamp = now, content_type = None,
       has_audio = Some (0 < length (audioDelta data))\<rparr>]"

text \<open>
  \<open>pending.resolve(data)\<close>: clear the response timer, push the two turns to the
  history of the captured session object, resolve the promise.
\<close>

definition pending_resolve :: "pending \<Rightarrow> response_buffer \<Rightarrow> nat \<Rightarrow> manager \<Rightarrow> manager" where
  "pending_resolve pd data now st0 =
     (let st1 = clearTimeout (timeout pd) st0;
          st2 = upd_session (captured_session pd) (\<lambda>s. s\<lparr>conversationHistory :=
                  conversationHistory s @ history_turns pd data now\<rparr>) st1
      in settle (promise pd) (ResolvedReply (make_result pd data now)) st2)"

subsection \<open>The dispatcher of inbound events\<close>

text \<open>
  A parsed event: its \<open>type\<close>, and the fields the dispatcher reads, absent as
  \<open>None\<close> (\<open>error_message\<close> is \<open>event.error?.message\<close>).
\<close>

record event =
  ev_type :: string
  delta :: "string option"
  transcript :: "string option"
  error_message :: "string option"

definition informational_types :: "string list" where
  "informational_types =
     [''rate_limits.updated'', ''response.created'', ''response.output_item.added'',
      ''response.content_part.added'', ''response.content_part.done'',
      ''response.output_item.done'', ''input_audio_buffer.committed'',
      ''input_audio_buffer.cleared'', ''conversation.item.created'',
      ''conversation.item.added'', ''conversation.item.done'',
      ''conversation.item.input_audio_transcription.delta'']"

text \<open>
  \<open>_handleOpenAIEvent(session, event)\<close> for the session object \<open>h\<close>, with the clock the
  \<open>resolve\<close> closure reads. \<open>!pending.buffer.textDelta\<close> holds when the text collected
  so far is empty; \<open>if (requestId)\<close> when the id is a non-empty string.
\<close>

definition handleOpenAIEvent :: "nat \<Rightarrow> event \<Rightarrow> nat \<Rightarrow> manager \<Rightarrow> manager" where
  "handleOpenAIEvent h event now st =
     (let type = ev_type event; session = heap st h in
      if type = ''session.created'' \<or> type = ''session.updated'' then st
      else if type = ''response.text.delta'' \<or> type = ''response.output_text.delta'' then
        (case getLatestPending session of
           None \<Rightarrow> st
         | Some pd \<Rightarrow>
             write_latest_buffer h
               ((buffer pd)\<lparr>textDelta := textDelta (buffer pd) @ or_empty (delta event)\<rparr>) st)
      else if type = ''response.audio.delta'' \<or> type = ''response.output_audio.delta'' then
        (case getLatestPending session of
           None \<Rightarrow> st
         | Some pd \<Rightarrow>
             if returnAudio pd
             then write_latest_buffer h
                    ((buffer pd)\<lparr>audioDelta := audioDelta (buffer pd) @ [or_empty (delta event)]\<rparr>) st
             else st)
      else if type = ''response.audio_transcript.delta''
              \<or> type = ''response.output_audio_transcript.delta'' then
        (case getLatestPending session of
           None \<Rightarrow> st
         | Some pd \<Rightarrow>
             if textDelta (buffer pd) = []
             then write_latest_buffer h
                    ((buffer pd)\<lparr>textDelta := textDelta (buffer pd) @ or_empty (delta event)\<rparr>) st
             else st)
      else if type = ''conversation.item.input_audio_transcription.completed'' then
        (case getLatestPending session of
           None \<Rightarrow> st
         | Some pd \<Rightarrow>
             if isAudioInput pd
             then write_latest_buffer h
                    ((buffer pd)\<lparr>inputTranscript := or_empty (transcript event)\<rparr>) st
             else st)
      else if type = ''response.done'' then
        (case getLatestPending session of
           None \<Rightarrow> st
         | Some pd \<Rightarrow>
             let requestId = getLatestPendingId session;
                 st' = pending_resolve pd (buffer pd) now st
             in (case requestId of
                   None \<Rightarrow> st'
                 | Some r \<Rightarrow>
                     if r = [] then st'
                     else upd_session h (\<lambda>s. s\<lparr>pendingResponses :=
                            AList.delete r (pendingResponses s)\<rparr>) st'))
      else if type = ''error'' then
        (case getLatestPending session of
           None \<Rightarrow> st
         | Some pd \<Rightarrow>
             let requestId = getLatestPendingId session;
                 st' = pending_reject pd
                         (OpenAIError (or_else (error_message event) ''Error desconocido de OpenAI''))
                         st
             in (case requestId of
                   None \<Rightarrow> st'
                 | Some r \<Rightarrow>
                     if r = [] then st'
                     else upd_session h (\<lambda>s. s\<lparr>pendingResponses :=
                            AList.delete r (pendingResponses s)\<rparr>) st'))
      else if type \<in> set informational_types then st
      else st)"

text \<open>\<open>ws.on('message', ...)\<close> hands the parsed event to the dispatcher.\<close>

definition ws_on_message :: "nat \<Rightarrow> event \<Rightarrow> nat \<Rightarrow> manager \<Rightarrow> manager" where
  "ws_on_message h event now st = handleOpenAIEvent h event now st"

subsection \<open>Timers\<close>

text \<open>
  A timer that is still armed fires once: the connect deadline set by \<open>createSession\<close>
  terminates the transport, deletes the session id from the map and rejects the
  promise of \<open>createSession\<close>; the response deadline set by \<open>sendText\<close> or \<open>sendAudio\<close>
  deletes the request id from the pending map of its session object and rejects the
  promise of the call. A cleared timer does nothing.
\<close>

definition fire_timer :: "nat \<Rightarrow> manager \<Rightarrow> manager" where
  "fire_timer t st0 =
     (case timers st0 t of
        None \<Rightarrow> st0
      | Some (delay, action) \<Rightarrow>
          let st1 = st0\<lparr>timers := (timers st0)(t := None)\<rparr> in
          (case action of
             ConnectDeadline h \<Rightarrow>
               let st2 = ws_terminate h st1;
                   st3 = st2\<lparr>sessions := AList.delete (sid (heap st2 h)) (sessions st2)\<rparr>
               in settle (createPromise (heap st3 h)) (Rejected ConnectTimeout) st3
           | ResponseDeadline h requestId p \<Rightarrow>
               let st2 = upd_session h (\<lambda>s. s\<lparr>pendingResponses :=
                           AList.delete requestId (pendingResponses s)\<rparr>) st1
               in settle p (Rejected (ResponseTimeout (responseTimeoutMs (config st2)))) st2))"

subsection \<open>The calls of the HTTP routes\<close>

text \<open>
  \<open>sendText(sessionId, text, options)\<close> with \<open>options.returnAudio\<close> (\<open>None\<close> when
  omitted), the value \<open>uuidv4()\<close> would return and the clock. The result is the promise
  of the call and the new state; a throw of \<open>_getSession\<close> rejects the promise, and so
  does a throw of \<open>ws.send\<close> inside the executor of the promise, which leaves the
  entry registered and the response timer armed.
\<close>

definition sendText ::
  "string \<Rightarrow> string \<Rightarrow> bool option \<Rightarrow> string \<Rightarrow> nat \<Rightarrow> manager \<Rightarrow> nat \<times> manager" where
  "sendText sessionId text opt_returnAudio uuid now st0 =
     (let p = next_ref st0;
          st1 = new_promise st0
      in case getSession_or_throw sessionId st1 of
           Inl e \<Rightarrow> (p, settle p (Rejected e) st1)
         | Inr h \<Rightarrow>
             let st2 = upd_session h (\<lambda>s. s\<lparr>lastActivityAt := now\<rparr>) st1;
                 requestId = uuid;
                 responseBuffer =
                   \<lparr>textDelta = [], audioDelta = [], inputTranscript = text,
                    eventId = None, itemId = None\<rparr>;
                 t = next_ref st2;
                 st3 = setTimeout (responseTimeoutMs (config st2)) (ResponseDeadline h requestId p) st2;
                 entry =
                   \<lparr>origin = FromText text, options_returnAudio = opt_returnAudio,
                    captured_session = h, captured_sessionId = sessionId,
                    captured_requestId = requestId, startTime = now, timeout = t, promise = p,
                    buffer = responseBuffer,
                    returnAudio = (case opt_returnAudio of None \<Rightarrow> False | Some b \<Rightarrow> b),
                    isAudioInput = False\<rparr>;
                 st4 = upd_session h (\<lambda>s. s\<lparr>pendingResponses :=
                         AList.update requestId entry (pendingResponses s)\<rparr>) st3;
                 sent = send_frames h
                          [ConversationItemCreate text (''msg_'' @ requestId),
                           ResponseCreate (''res_'' @ requestId)
                             (if opt_returnAudio = Some True then [''text'', ''audio'']
                              else [''text''])] st4
             in (p, case fst sent of
                      None \<Rightarrow> snd sent
                    | Some e \<Rightarrow> settle p (Rejected e) (snd sent)))"

text \<open>The loop \<open>for (let i = 0; i < audioBase64.length; i += CHUNK_SIZE)\<close> with \<open>CHUNK_SIZE = 15000\<close>.\<close>

function audio_chunks :: "string \<Rightarrow> nat \<Rightarrow> string list" where
  "audio_chunks audioBase64 i =
     (if i < length audioBase64
      then take 15000 (drop i audioBase64) # audio_chunks audioBase64 (i + 15000)
      else [])"
  by pat_completeness auto
termination
  by (relation "measure (\<lambda>(a, i). length a - i)") auto

text \<open>
  \<open>sendAudio(sessionId, audioBase64, options)\<close>: the frames are the clear, one append
  per chunk, the commit and the request of a response, in that order.
\<close>

definition sendAudio ::
  "string \<Rightarrow> string \<Rightarrow> bool option \<Rightarrow> string \<Rightarrow> nat \<Rightarrow> manager \<Rightarrow> nat \<times> manager" where
  "sendAudio sessionId audioBase64 opt_returnAudio uuid now st0 =
     (let p = next_ref st0;
          st1 = new_promise st0
      in case getSession_or_throw sessionId st1 of
           Inl e \<Rightarrow> (p, settle p (Rejected e) st1)
         | Inr h \<Rightarrow>
             let st2 = upd_session h (\<lambda>s. s\<lparr>lastActivityAt := now\<rparr>) st1;
                 requestId = uuid;
                 responseBuffer =
                   \<lparr>textDelta = [], audioDelta = [], inputTranscript = [],
                    eventId = None, itemId = None\<rparr>;
                 t = next_ref st2;
                 st3 = setTimeout (responseTimeoutMs (config st2)) (ResponseDeadline h requestId p) st2;
                 entry =
                   \<lparr>origin = FromAudio, options_returnAudio = opt_returnAudio,
                    captured_session = h, captured_sessionId = sessionId,
                    captured_requestId = requestId, startTime = now, timeout = t, promise = p,
                    buffer = responseBuffer,
                    returnAudio = (opt_returnAudio \<noteq> Some False),
                    isAudioInput = True\<rparr>;
                 st4 = upd_session h (\<lambda>s. s\<lparr>pendingResponses :=
                         AList.update requestId entry (pendingResponses s)\<rparr>) st3;
                 sent = send_frames h
                          (InputAudioBufferClear
                           # map InputAudioBufferAppend (audio_chunks audioBase64 0)
                           @ [InputAudioBufferCommit (''audio_'' @ requestId),
                              ResponseCreate (''res_'' @ requestId)
                                (if opt_returnAudio \<noteq> Some False then [''text'', ''audio'']
                                 else [''text''])]) st4
             in (p, case fst sent of
                      None \<Rightarrow> snd sent
                    | Some e \<Rightarrow> settle p (Rejected e) (snd sent)))"

text \<open>
  The objects \<open>{ success, error }\<close> and \<open>{ success, session_id }\<close> that
  \<open>closeSession\<close> and \<open>updateInstructions\<close> return.
\<close>

record ack =
  success :: bool
  error :: "string option"
  ack_session_id :: "string option"

definition msg_not_found :: string where
  "msg_not_found = ''Sesi'' @ [CHR 0xF3] @ ''n no encontrada''"

text \<open>
  \<open>updateInstructions(sessionId, instructions)\<close>: what it returns or throws, and the
  new state. A throw of \<open>ws.send\<close> comes after the two assignments.
\<close>

definition updateInstructions ::
  "string \<Rightarrow> string \<Rightarrow> nat \<Rightarrow> manager \<Rightarrow> (js_error + ack) \<times> manager" where
  "updateInstructions sessionId instructions' now st =
     (case getSession_or_throw sessionId st of
        Inl e \<Rightarrow> (Inl e, st)
      | Inr h \<Rightarrow>
          let st1 = upd_session h (\<lambda>s. s\<lparr>instructions := instructions'\<rparr>) st;
              st2 = upd_session h (\<lambda>s. s\<lparr>lastActivityAt := now\<rparr>) st1
          in case ws_send h (SessionUpdateInstructions instructions') st2 of
               Inl e \<Rightarrow> (Inl e, st2)
             | Inr st3 \<Rightarrow>
                 (Inr \<lparr>success = True, error = None, ack_session_id = Some sessionId\<rparr>, st3))"

text \<open>\<open>getSession(sessionId)\<close>: \<open>null\<close> or the summary.\<close>

record summary =
  sum_session_id :: string
  sum_status :: status
  sum_model :: string
  sum_voice :: string
  sum_created_at :: nat
  last_activity_at :: nat
  message_count :: nat
  sum_instructions_preview :: string
  sum_metadata :: "(string \<times> string) list"

definition getSession :: "string \<Rightarrow> manager \<Rightarrow> summary option \<times> manager" where
  "getSession sessionId st =
     (case map_of (sessions st) sessionId of
        None \<Rightarrow> (None, st)
      | Some h \<Rightarrow>
          let session = heap st h in
          (Some \<lparr>sum_session_id = sid session, sum_status = status session,
                 sum_model = model session, sum_voice = voice session,
                 sum_created_at = createdAt session, last_activity_at = lastActivityAt session,
                 message_count = length (conversationHistory session),
                 sum_instructions_preview = take 100 (instructions session)
                   @ (if 100 < length (instructions session) then ''...'' else ''''),
                 sum_metadata = metadata session\<rparr>, st))"

text \<open>\<open>getHistory(sessionId)\<close>: what it returns or throws; it assigns nothing.\<close>

record history =
  hist_session_id :: string
  messages :: "turn list"
  total :: nat

definition getHistory :: "string \<Rightarrow> manager \<Rightarrow> (js_error + history) \<times> manager" where
  "getHistory sessionId st =
     (case getSession_or_throw sessionId st of
        Inl e \<Rightarrow> (Inl e, st)
      | Inr h \<Rightarrow>
          (Inr \<lparr>hist_session_id = sessionId, messages = conversationHistory (heap st h),
                total = length (conversationHistory (heap st h))\<rparr>, st))"

text \<open>\<open>closeSession(sessionId)\<close>: it has no \<open>throw\<close>.\<close>

definition closeSession :: "string \<Rightarrow> manager \<Rightarrow> ack \<times> manager" where
  "closeSession sessionId st =
     (case map_of (sessions st) sessionId of
        None \<Rightarrow> (\<lparr>success = False, error = Some msg_not_found, ack_session_id = None\<rparr>, st)
      | Some h \<Rightarrow>
          let st1 = rejectAllPending h ClosedManually st;
              st2 = ws_terminate h st1;
              st3 = st2\<lparr>sessions := AList.delete sessionId (sessions st2)\<rparr>
          in (\<lparr>success = True, error = None, ack_session_id = Some sessionId\<rparr>, st3))"

subsection \<open>Runs\<close>

text \<open>The object \<open>closeSession\<close> returns for an id it does not find.\<close>

definition not_found_ack :: ack where
  "not_found_ack = \<lparr>success = False, error = Some msg_not_found, ack_session_id = None\<rparr>"

text \<open>
  The events that end a call: the terminal \<open>response.done\<close> and \<open>error\<close>.
\<close>

definition is_terminal :: "event \<Rightarrow> bool" where
  "is_terminal ev = (ev_type ev = ''response.done'' \<or> ev_type ev = ''error'')"

text \<open>
  Timer handles and promises are drawn from \<open>next_ref\<close>: those a pending entry
  holds are below it.
\<close>

definition handles_below :: "manager \<Rightarrow> bool" where
  "handles_below st =
     (\<forall>h. list_all (\<lambda>entry. timeout (snd entry) < next_ref st \<and> promise (snd entry) < next_ref st)
            (pendingResponses (heap st h)))"

text \<open>
  Inbound messages arrive one after the other, each on the transport of some session
  object and at some time.
\<close>

definition deliver :: "(nat \<times> event \<times> nat) list \<Rightarrow> manager \<Rightarrow> manager" where
  "deliver evs st = fold (\<lambda>(h, ev, now). ws_on_message h ev now) evs st"

text \<open>A text delta and the terminal event.\<close>

definition ex_text_delta :: event where
  "ex_text_delta = \<lparr>ev_type = ''response.text.delta'', delta = Some ''Ho'', transcript = None,
     error_message = None\<rparr>"

definition ex_done :: event where
  "ex_done = \<lparr>ev_type = ''response.done'', delta = None, transcript = None,
     error_message = None\<rparr>"

text \<open>
  A manager built with no configuration and no environment; a session \<open>s1\<close>
  created in it at time 1000 (promise 0, session object 1, connect timer 2); the same
  after its transport opened.
\<close>

definition no_settings :: settings where
  "no_settings =
     \<lparr>set_model = None, set_defaultVoice = None, set_responseTimeoutMs = None,
      set_sessionMaxIdleMs = None, set_defaultInstructions = None, set_maxSessions = None\<rparr>"

definition ex_created :: manager where
  "ex_created =
     snd (createSession
           \<lparr>opt_sessionId = Some ''s1'', opt_voice = None, opt_instructions = None,
            opt_metadata = None\<rparr> ''u1'' 1000 (SessionManager no_settings no_settings))"

definition ex_connected :: manager where
  "ex_connected = ws_on_open 1 ex_created"


text \<open>
  The connected session with a \<open>sendText\<close> call pending (promise 3, response timer 4).
\<close>

definition ex_pending :: manager where
  "ex_pending = snd (sendText ''s1'' ''hola'' None ''r1'' 2000 ex_connected)"

text \<open>
  The same after a text delta at 2100 and the terminal event at 2500 arrived on the
  transport of session object 1.
\<close>

definition ex_replied :: manager where
  "ex_replied = deliver [(1, ex_text_delta, 2100), (1, ex_done, 2500)] ex_pending"

text \<open>
  A transport error on the transport of \<open>s1\<close> after that exchange: the session is
  marked \<open>error\<close> and stays in the map until the transport closes.
\<close>

definition ex_errored :: manager where
  "ex_errored = ws_on_error 1 (TransportError ''ECONNRESET'') ex_replied"

text \<open>A transport error on the transport of \<open>s1\<close> while it is still connecting.\<close>

definition ex_connect_error :: manager where
  "ex_connect_error = ws_on_error 1 (TransportError ''ECONNREFUSED'') ex_created"

text \<open>
  A \<open>sendAudio\<close> call on the connected session (promise 3, response timer 4), then
  two deltas of the spoken transcript and the terminal event.
\<close>

definition ex_transcript_delta :: "string \<Rightarrow> event" where
  "ex_transcript_delta d = \<lparr>ev_type = ''response.audio_transcript.delta'', delta = Some d,
     transcript = None, error_message = None\<rparr>"

definition ex_audio_pending :: manager where
  "ex_audio_pending = snd (sendAudio ''s1'' ''AAAA'' None ''r1'' 2000 ex_connected)"

definition ex_spoken :: manager where
  "ex_spoken =
     deliver [(1, ex_transcript_delta ''Hel'', 2100), (1, ex_transcript_delta ''lo'', 2200),
              (1, ex_done, 2500)] ex_audio_pending"


definition no_options :: create_options where
  "no_options =
     \<lparr>opt_sessionId = None, opt_voice = None, opt_instructions = None, opt_metadata = None\<rparr>"

section \<open>Properties of the audio utilities\<close>

lemma unbase64_b64_char: "i < 64 \<Longrightarrow> unbase64 (b64_char i) = Some i"
  unfolding unbase64_def b64_char_def Let_def
  by simp arith

lemma b64_char_not_pad: "i < 64 \<Longrightarrow> b64_char i \<noteq> CHR ''=''"
proof
  assume "i < 64" and "b64_char i = CHR ''=''"
  then have "unbase64 (CHR ''='') = Some i" using unbase64_b64_char by metis
  then show False by (simp add: unbase64_def)
qed

lemma unat_byte: "unat (a :: byte) < 256"
  using unsigned_less [of a] by simp

lemma sextet_parts:
  fixes a b c :: nat
  shows "b < 256 \<Longrightarrow> (a mod 4 * 16 + b div 16) div 16 = a mod 4"
    and "b < 256 \<Longrightarrow> (a mod 4 * 16 + b div 16) mod 16 = b div 16"
    and "c < 256 \<Longrightarrow> (b mod 16 * 4 + c div 64) div 4 = b mod 16"
    and "c < 256 \<Longrightarrow> (b mod 16 * 4 + c div 64) mod 4 = c div 64"
  by simp_all

lemma sextet_bounds:
  fixes a b c :: nat
  shows "a < 256 \<Longrightarrow> a div 4 < 64"
    and "b < 256 \<Longrightarrow> a mod 4 * 16 + b div 16 < 64"
    and "c < 256 \<Longrightarrow> b mod 16 * 4 + c div 64 < 64"
    and "a mod 4 * 16 < 64"
    and "b mod 16 * 4 < 64"
proof -
  have m4: "a mod 4 < 4" and m16: "b mod 16 < 16" by simp_all
  show "a < 256 \<Longrightarrow> a div 4 < 64" by simp
  show "a mod 4 * 16 < 64" using m4 by linarith
  show "b mod 16 * 4 < 64" using m16 by linarith
  { assume "b < 256"
    then have "b div 16 < 16" by simp
    then show "a mod 4 * 16 + b div 16 < 64" using m4 by linarith }
  { assume "c < 256"
    then have "c div 64 < 4" by simp
    then show "b mod 16 * 4 + c div 64 < 64" using m16 by linarith }
qed

lemma sextets_bound: "x \<in> set (bytes_to_sextets bs) \<Longrightarrow> x < 64"
  by (induction bs arbitrary: x rule: bytes_to_sextets.induct)
     (auto simp: sextet_bounds unat_byte)

lemma sextet_join:
  fixes a b c :: nat
  assumes "b < 256" and "c < 256"
  shows "a div 4 * 4 + (a mod 4 * 16 + b div 16) div 16 = a"
    and "(a mod 4 * 16 + b div 16) mod 16 * 16 + (b mod 16 * 4 + c div 64) div 4 = b"
    and "(b mod 16 * 4 + c div 64) mod 4 * 64 + c mod 64 = c"
    and "a div 4 * 4 + a mod 4 * 16 div 16 = a"
    and "(a mod 4 * 16 + b div 16) mod 16 * 16 + b mod 16 * 4 div 4 = b"
  using assms by (simp_all add: sextet_parts)

lemma word_of_unat_byte: "n = unat (a :: byte) \<Longrightarrow> word_of_nat n = a"
  by simp

lemma sextets_roundtrip: "sextets_to_bytes (bytes_to_sextets bs) = bs"
proof (induction bs rule: bytes_to_sextets.induct)
  case (1 a b c r)
  have "(word_of_nat (unat a div 4 * 4 + (unat a mod 4 * 16 + unat b div 16) div 16) :: byte) = a"
    and "(word_of_nat ((unat a mod 4 * 16 + unat b div 16) mod 16 * 16
           + (unat b mod 16 * 4 + unat c div 64) div 4) :: byte) = b"
    and "(word_of_nat ((unat b mod 16 * 4 + unat c div 64) mod 4 * 64 + unat c mod 64) :: byte) = c"
    by (rule word_of_unat_byte, rule sextet_join, rule unat_byte, rule unat_byte)+
  with 1 show ?case by (simp only: bytes_to_sextets.simps sextets_to_bytes.simps)
next
  case (2 a b)
  have "(word_of_nat (unat a div 4 * 4 + (unat a mod 4 * 16 + unat b div 16) div 16) :: byte) = a"
    and "(word_of_nat ((unat a mod 4 * 16 + unat b div 16) mod 16 * 16
           + unat b mod 16 * 4 div 4) :: byte) = b"
    by (rule word_of_unat_byte, rule sextet_join, rule unat_byte, rule unat_byte)+
  then show ?case by (simp only: bytes_to_sextets.simps sextets_to_bytes.simps)
next
  case (3 a)
  have "(word_of_nat (unat a div 4 * 4 + unat a mod 4 * 16 div 16) :: byte) = a"
    by (rule word_of_unat_byte, rule sextet_join, rule unat_byte, rule unat_byte)
  then show ?case by (simp only: bytes_to_sextets.simps sextets_to_bytes.simps)
next
  case 4
  show ?case by simp
qed

lemma map_filter_unbase64: 
  "\<forall>x \<in> set xs. x < 64 \<Longrightarrow> List.map_filter unbase64 (map b64_char xs) = xs"
  by (induction xs) (simp_all add: List.map_filter_simps unbase64_b64_char)

lemma takeWhile_b64:
  assumes "\<forall>x \<in> set xs. x < 64"
  shows "takeWhile (\<lambda>c. c \<noteq> CHR ''='') (map b64_char xs @ b64_padding n) = map b64_char xs"
proof -
  have "takeWhile (\<lambda>c. c \<noteq> CHR ''='') (b64_padding n) = []"
    by (cases "(3 - n mod 3) mod 3") (simp_all add: b64_padding_def)
  moreover have "\<forall>c \<in> set (map b64_char xs). c \<noteq> CHR ''=''"
    using assms by (auto simp: b64_char_not_pad)
  ultimately show ?thesis by (subst takeWhile_append2) auto
qed

lemma Buffer_base64_roundtrip: "Buffer_from_base64 (toString_base64 bs) = bs"
proof -
  have "\<forall>x \<in> set (bytes_to_sextets bs). x < 64" by (simp add: sextets_bound)
  then show ?thesis
    unfolding Buffer_from_base64_def toString_base64_def
    by (simp add: takeWhile_b64 map_filter_unbase64 sextets_roundtrip)
qed

lemma length_overwrite: "off \<le> length buf \<Longrightarrow> length (overwrite buf off bs) = length buf"
  by (auto simp: overwrite_def)

lemma length_run_writes:
  "run_writes ws buf off = Inr buf' \<Longrightarrow>
   \<forall>(w, k) \<in> set ws. \<forall>b o' b'. w b o' = Inr b' \<longrightarrow> length b' = length b \<Longrightarrow>
   length buf' = length buf"
proof (induction ws buf off rule: run_writes.induct)
  case (1 buf off)
  then show ?case by simp
next
  case (2 w k ws buf off)
  then show ?case by (fastforce split: sum.splits)
qed

lemma write_lengths:
  "Buffer_write s b off = Inr b' \<Longrightarrow> length b' = length b"
  "writeUInt32LE v b off = Inr b' \<Longrightarrow> length b' = length b"
  "writeUInt16LE v b off = Inr b' \<Longrightarrow> length b' = length b"
  by (auto simp: Buffer_write_def writeUInt32LE_def writeUInt16LE_def length_overwrite
           split: if_splits)

lemma addWavHeader_shape:
  assumes "addWavHeader pcmData sr nc bps = Inr wav"
  shows "\<exists>header. length header = 44 \<and> wav = header @ pcmData"
proof -
  from assms obtain header where
    rw: "run_writes
           [(Buffer_write ''RIFF'', 4),
            (writeUInt32LE (36 + length pcmData), 4),
            (Buffer_write ''WAVE'', 4),
            (Buffer_write ''fmt '', 4),
            (writeUInt32LE 16, 4),
            (writeUInt16LE 1, 2),
            (writeUInt16LE nc, 2),
            (writeUInt32LE sr, 4),
            (writeUInt32LE (sr * nc * (bps div 8)), 4),
            (writeUInt16LE (nc * (bps div 8)), 2),
            (writeUInt16LE bps, 2),
            (Buffer_write ''data'', 4),
            (writeUInt32LE (length pcmData), 0)] (Buffer_alloc 44) 0 = Inr header"
    and wav: "wav = header @ pcmData"
    by (auto simp: addWavHeader_def Let_def split: sum.splits)
  have "length header = length (Buffer_alloc 44)"
    by (rule length_run_writes [OF rw]) (auto simp: write_lengths)
  then show ?thesis using wav by (simp add: Buffer_alloc_def)
qed

lemma addWavHeader_defined:
  assumes "36 + length pcmData < 2 ^ 32" and "sr * 2 < 2 ^ 32"
  shows "\<exists>wav. addWavHeader pcmData sr 1 16 = Inr wav"
  using assms
  by (simp add: addWavHeader_def Let_def Buffer_alloc_def Buffer_write_def
        writeUInt32LE_def writeUInt16LE_def length_overwrite)


subsection \<open>Round trip through the container\<close>

lemma ex_unpadded: "Buffer_from_base64 ''QUJDRA'' = [65, 66, 67, 68]"
  by (simp add: Buffer_from_base64_def List.map_filter_simps unbase64_def)

text \<open>
  C1. For every byte sequence \<open>x\<close>, handed over as its base64 text, wrapping it into the
  44-byte container with \<open>pcm16ToWavBase64\<close> (default sample rate 24000) and unwrapping
  the result with \<open>wavBase64ToPcm16Base64\<close> gives back the same base64 text, and so the
  same octets. When \<open>x\<close> is handed over as any other text that decodes to it (without
  padding, say), the octets that come back are still \<open>x\<close>. The premise is the range
  of the header's 32-bit size field, which the write checks; the octets of a
  JavaScript string always satisfy it, since a string is shorter than \<open>2 ^ 30\<close>
  characters.
\<close>

theorem wav_roundtrip:
  assumes "36 + length x < 2 ^ 32"
  shows "(\<exists>wav. pcm16ToWavBase64 (toString_base64 x) 24000 = Inr wav
           \<and> wavBase64ToPcm16Base64 wav = toString_base64 x
           \<and> Buffer_from_base64 (wavBase64ToPcm16Base64 wav) = x)
       \<and> (\<forall>s. Buffer_from_base64 s = x \<longrightarrow>
             (\<exists>wav. pcm16ToWavBase64 s 24000 = Inr wav
                \<and> Buffer_from_base64 (wavBase64ToPcm16Base64 wav) = x))"
proof -
  from assms obtain w where w: "addWavHeader x 24000 1 16 = Inr w"
    using addWavHeader_defined [of x 24000] by auto
  then obtain header where h: "length header = 44" "w = header @ x"
    using addWavHeader_shape by blast
  have unwrap: "wavBase64ToPcm16Base64 (toString_base64 w) = toString_base64 x"
    by (simp add: wavBase64ToPcm16Base64_def Buffer_base64_roundtrip h)
  have wrap: "pcm16ToWavBase64 s 24000 = Inr (toString_base64 w)" if "Buffer_from_base64 s = x" for s
    using w that by (simp add: pcm16ToWavBase64_def)
  have "pcm16ToWavBase64 (toString_base64 x) 24000 = Inr (toString_base64 w)"
    by (rule wrap) (rule Buffer_base64_roundtrip)
  then show ?thesis
    using unwrap wrap by (simp add: Buffer_base64_roundtrip)
qed

theorem wav_roundtrip_witness:
  "36 + length [65, 66, 67, 68 :: byte] < (2 :: nat) ^ 32
   \<and> Buffer_from_base64 ''QUJDRA'' = [65, 66, 67, 68]
   \<and> toString_base64 [65, 66, 67, 68] = ''QUJDRA==''
   \<and> (\<exists>wav. pcm16ToWavBase64 ''QUJDRA=='' 24000 = Inr wav
           \<and> wavBase64ToPcm16Base64 wav = ''QUJDRA==''
           \<and> Buffer_from_base64 (wavBase64ToPcm16Base64 wav) = [65, 66, 67, 68])
   \<and> (\<exists>wav. pcm16ToWavBase64 ''QUJDRA'' 24000 = Inr wav
           \<and> Buffer_from_base64 (wavBase64ToPcm16Base64 wav) = [65, 66, 67, 68])"
proof -
  have enc: "toString_base64 [65, 66, 67, 68] = ''QUJDRA==''"
    by code_simp
  show ?thesis
    using wav_roundtrip [of "[65, 66, 67, 68]"] ex_unpadded enc by simp
qed

section \<open>Properties of the session manager\<close>

subsection \<open>What the primitives change\<close>

named_theorems prim

lemma settle_fields [prim]:
  "config (settle p v st) = config st"
  "sessions (settle p v st) = sessions st"
  "heap (settle p v st) = heap st"
  "timers (settle p v st) = timers st"
  "next_ref (settle p v st) = next_ref st"
  "promises (settle p v st) = (case promises st p of None \<Rightarrow> (promises st)(p \<mapsto> v) | Some _ \<Rightarrow> promises st)"
  by (simp_all add: settle_def split: option.splits)

lemma clearTimeout_fields [prim]:
  "config (clearTimeout t st) = config st"
  "sessions (clearTimeout t st) = sessions st"
  "heap (clearTimeout t st) = heap st"
  "promises (clearTimeout t st) = promises st"
  "next_ref (clearTimeout t st) = next_ref st"
  "timers (clearTimeout t st) = (timers st)(t := None)"
  by (simp_all add: clearTimeout_def)

lemma upd_session_fields [prim]:
  "config (upd_session h f st) = config st"
  "sessions (upd_session h f st) = sessions st"
  "promises (upd_session h f st) = promises st"
  "timers (upd_session h f st) = timers st"
  "next_ref (upd_session h f st) = next_ref st"
  "heap (upd_session h f st) = (heap st)(h := f (heap st h))"
  by (simp_all add: upd_session_def)

lemma new_promise_fields [prim]:
  "config (new_promise st) = config st"
  "sessions (new_promise st) = sessions st"
  "heap (new_promise st) = heap st"
  "timers (new_promise st) = timers st"
  "next_ref (new_promise st) = Suc (next_ref st)"
  "promises (new_promise st) = (promises st)(next_ref st := None)"
  by (simp_all add: new_promise_def)

lemma setTimeout_fields [prim]:
  "config (setTimeout d a st) = config st"
  "sessions (setTimeout d a st) = sessions st"
  "heap (setTimeout d a st) = heap st"
  "promises (setTimeout d a st) = promises st"
  "next_ref (setTimeout d a st) = Suc (next_ref st)"
  "timers (setTimeout d a st) = (timers st)(next_ref st \<mapsto> (d, a))"
  by (simp_all add: setTimeout_def)

lemma ws_send_eq:
  "ws_send h frame st =
     (if ws_readyState (heap st h) = CONNECTING then Inl WebSocketNotOpen
      else if ws_readyState (heap st h) = OPEN
      then Inr (upd_session h (\<lambda>s. s\<lparr>ws_sent := ws_sent s @ [frame]\<rparr>) st)
      else Inr st)"
  by (simp add: ws_send_def split: ready_state.splits)

lemma upd_session_id: "upd_session h (\<lambda>s. s) st = st"
  by (simp add: upd_session_def)

lemma upd_session_sent_twice:
  "upd_session h (\<lambda>s. s\<lparr>ws_sent := ws_sent s @ ys\<rparr>)
     (upd_session h (\<lambda>s. s\<lparr>ws_sent := ws_sent s @ xs\<rparr>) st)
   = upd_session h (\<lambda>s. s\<lparr>ws_sent := ws_sent s @ xs @ ys\<rparr>) st"
  by (simp add: upd_session_def)

lemma send_frames_eq:
  "send_frames h frames st =
     (if ws_readyState (heap st h) = CONNECTING \<and> frames \<noteq> [] then (Some WebSocketNotOpen, st)
      else if ws_readyState (heap st h) = OPEN
      then (None, upd_session h (\<lambda>s. s\<lparr>ws_sent := ws_sent s @ frames\<rparr>) st)
      else (None, st))"
proof (induction frames arbitrary: st)
  case Nil
  then show ?case by (simp add: upd_session_id)
next
  case (Cons frame frames)
  have keep: "ws_readyState (heap (upd_session h (\<lambda>s. s\<lparr>ws_sent := ws_sent s @ [frame]\<rparr>) st) h)
                = ws_readyState (heap st h)"
    by (simp add: upd_session_def)
  show ?case
    by (simp add: ws_send_eq Cons.IH keep upd_session_sent_twice)
qed

lemma ws_terminate_fields [prim]:
  "config (ws_terminate h st) = config st"
  "sessions (ws_terminate h st) = sessions st"
  "promises (ws_terminate h st) = promises st"
  "timers (ws_terminate h st) = timers st"
  "next_ref (ws_terminate h st) = next_ref st"
  "heap (ws_terminate h st) =
     (heap st)(h := (heap st h)\<lparr>ws_terminated := True,
        ws_readyState := (if ws_readyState (heap st h) = CLOSED then CLOSED else CLOSING)\<rparr>)"
  by (simp_all add: ws_terminate_def upd_session_def)

lemma write_latest_buffer_heap:
  "heap (write_latest_buffer h b st) h' =
    (if h' = h then (heap st h)\<lparr>pendingResponses :=
       (pendingResponses (heap st h))[length (pendingResponses (heap st h)) - 1 :=
         (fst (last (pendingResponses (heap st h))), (snd (last (pendingResponses (heap st h))))\<lparr>buffer := b\<rparr>)]\<rparr>
     else heap st h')"
  by (simp add: write_latest_buffer_def prim)

lemma write_latest_buffer_fields [prim]:
  "config (write_latest_buffer h b st) = config st"
  "sessions (write_latest_buffer h b st) = sessions st"
  "promises (write_latest_buffer h b st) = promises st"
  "timers (write_latest_buffer h b st) = timers st"
  "next_ref (write_latest_buffer h b st) = next_ref st"
  by (simp_all add: write_latest_buffer_def prim)

lemma pending_resolve_fields [prim]:
  "config (pending_resolve pd data now st) = config st"
  "sessions (pending_resolve pd data now st) = sessions st"
  "next_ref (pending_resolve pd data now st) = next_ref st"
  "timers (pending_resolve pd data now st) = (timers st)(timeout pd := None)"
  "heap (pending_resolve pd data now st) = 
     (heap st)(captured_session pd := (heap st (captured_session pd))\<lparr>conversationHistory :=
         conversationHistory (heap st (captured_session pd)) @ history_turns pd data now\<rparr>)"
  by (simp_all add: pending_resolve_def Let_def prim)

lemma pending_resolve_promises:
  "promises (pending_resolve pd data now st) q =
     (if q = promise pd \<and> promises st q = None
      then Some (ResolvedReply (make_result pd data now)) else promises st q)"
  by (auto simp: pending_resolve_def Let_def prim split: option.splits)

lemma pending_reject_fields [prim]:
  "config (pending_reject pd err st) = config st"
  "sessions (pending_reject pd err st) = sessions st"
  "next_ref (pending_reject pd err st) = next_ref st"
  "heap (pending_reject pd err st) = heap st"
  "timers (pending_reject pd err st) = (timers st)(timeout pd := None)"
  by (simp_all add: pending_reject_def Let_def prim)

lemma pending_reject_promises:
  "promises (pending_reject pd err st) q =
     (if q = promise pd \<and> promises st q = None then Some (Rejected err) else promises st q)"
  by (auto simp: pending_reject_def prim split: option.splits)

lemma reject_fold_frame:
  "config (fold (\<lambda>entry. pending_reject (snd entry) err) xs st) = config st"
  "sessions (fold (\<lambda>entry. pending_reject (snd entry) err) xs st) = sessions st"
  "heap (fold (\<lambda>entry. pending_reject (snd entry) err) xs st) = heap st"
  "next_ref (fold (\<lambda>entry. pending_reject (snd entry) err) xs st) = next_ref st"
  by (induction xs arbitrary: st; simp add: prim)+

lemma reject_fold_promises:
  "promises (fold (\<lambda>entry. pending_reject (snd entry) err) xs st) q =
     (if q \<in> promise ` snd ` set xs \<and> promises st q = None then Some (Rejected err)
      else promises st q)"
  by (induction xs arbitrary: st) (auto simp: pending_reject_promises)

lemma reject_fold_timers:
  "timers (fold (\<lambda>entry. pending_reject (snd entry) err) xs st) t =
     (if t \<in> timeout ` snd ` set xs then None else timers st t)"
  by (induction xs arbitrary: st) (auto simp: prim)

lemma rejectAllPending_fields:
  "config (rejectAllPending h err st) = config st"
  "sessions (rejectAllPending h err st) = sessions st"
  "next_ref (rejectAllPending h err st) = next_ref st"
  "heap (rejectAllPending h err st) = (heap st)(h := (heap st h)\<lparr>pendingResponses := []\<rparr>)"
  "promises (rejectAllPending h err st) q =
     (if q \<in> promise ` snd ` set (pendingResponses (heap st h)) \<and> promises st q = None
      then Some (Rejected err) else promises st q)"
  "timers (rejectAllPending h err st) t =
     (if t \<in> timeout ` snd ` set (pendingResponses (heap st h)) then None else timers st t)"
  by (simp_all add: rejectAllPending_def Let_def prim reject_fold_frame reject_fold_promises
        reject_fold_timers)

subsection \<open>The dispatcher\<close>

lemma getLatestPending_Some:
  "getLatestPending s = Some pd \<Longrightarrow> pendingResponses s \<noteq> [] \<and> pd = snd (last (pendingResponses s))"
  by (auto simp: getLatestPending_def Let_def last_conv_nth split: if_splits)

lemma keys_update_last:
  "xs \<noteq> [] \<Longrightarrow> map fst (xs[length xs - Suc 0 := (fst (last xs), v)]) = map fst xs"
  by (simp add: map_update last_conv_nth list_update_same_conv)

lemma write_latest_buffer_keys:
  "pendingResponses (heap st h) \<noteq> [] \<Longrightarrow>
   map fst (pendingResponses (heap (write_latest_buffer h b st) h')) =
   map fst (pendingResponses (heap st h'))"
  by (simp add: write_latest_buffer_heap keys_update_last)

lemma dispatch_lastActivityAt:
  "lastActivityAt (heap (handleOpenAIEvent h ev now st) h') = lastActivityAt (heap st h')"
  by (simp add: handleOpenAIEvent_def Let_def prim write_latest_buffer_heap split: option.splits)

lemma dispatch_next_ref: "next_ref (handleOpenAIEvent h ev now st) = next_ref st"
  by (simp add: handleOpenAIEvent_def Let_def prim split: option.splits)

lemma dispatch_config: "config (handleOpenAIEvent h ev now st) = config st"
  by (simp add: handleOpenAIEvent_def Let_def prim split: option.splits)

lemma nonterminal_frame:
  assumes "\<not> is_terminal ev"
  shows "timers (handleOpenAIEvent h ev now st) = timers st"
    and "promises (handleOpenAIEvent h ev now st) = promises st"
    and "config (handleOpenAIEvent h ev now st) = config st"
    and "map fst (pendingResponses (heap (handleOpenAIEvent h ev now st) h')) =
         map fst (pendingResponses (heap st h'))"
  using assms
  by (auto simp: handleOpenAIEvent_def is_terminal_def Let_def prim write_latest_buffer_keys
           dest: getLatestPending_Some split: option.splits)

lemma deliver_nonterminal:
  assumes "list_all (\<lambda>(h, ev, now). \<not> is_terminal ev) evs"
  shows "timers (deliver evs st) = timers st
       \<and> promises (deliver evs st) = promises st
       \<and> config (deliver evs st) = config st
       \<and> (\<forall>h'. map fst (pendingResponses (heap (deliver evs st) h')) =
               map fst (pendingResponses (heap st h')))"
  using assms
proof (induction evs arbitrary: st)
  case Nil
  then show ?case by (simp add: deliver_def)
next
  case (Cons e evs)
  obtain h ev now where e: "e = (h, ev, now)" by (cases e) auto
  with Cons.prems have nt: "\<not> is_terminal ev" and rest: "list_all (\<lambda>(h, ev, now). \<not> is_terminal ev) evs"
    by simp_all
  have step: "deliver (e # evs) st = deliver evs (handleOpenAIEvent h ev now st)"
    by (simp add: deliver_def e ws_on_message_def)
  show ?case
    unfolding step using Cons.IH [OF rest, of "handleOpenAIEvent h ev now st"]
    by (simp add: nonterminal_frame [OF nt])
qed

lemma transcript_delta_dropped:
  assumes "getLatestPending (heap st h) = Some pd" and "textDelta (buffer pd) \<noteq> []"
    and "ev_type ev = ''response.audio_transcript.delta''
         \<or> ev_type ev = ''response.output_audio_transcript.delta''"
  shows "handleOpenAIEvent h ev now st = st"
  using assms by (auto simp: handleOpenAIEvent_def Let_def)

lemma dispatch_other_pending:
  "g \<noteq> h \<Longrightarrow>
   pendingResponses (heap (handleOpenAIEvent g ev now st) h) = pendingResponses (heap st h)"
  by (simp add: handleOpenAIEvent_def Let_def prim write_latest_buffer_heap split: option.splits)

lemma handles_update_last:
  fixes xs :: "(string \<times> pending) list"
  assumes "xs \<noteq> []"
  shows "(\<lambda>e. (timeout (snd e), promise (snd e))) `
           set (xs[length xs - Suc 0 := (fst (last xs), (snd (last xs))\<lparr>buffer := b\<rparr>)])
         \<subseteq> (\<lambda>e. (timeout (snd e), promise (snd e))) ` set xs"
proof (rule subsetI)
  fix y
  assume "y \<in> (\<lambda>e. (timeout (snd e), promise (snd e))) `
           set (xs[length xs - Suc 0 := (fst (last xs), (snd (last xs))\<lparr>buffer := b\<rparr>)])"
  then obtain e where
    e1: "e \<in> set (xs[length xs - Suc 0 := (fst (last xs), (snd (last xs))\<lparr>buffer := b\<rparr>)])"
    and e2: "y = (timeout (snd e), promise (snd e))"
    by (elim imageE)
  from e1 have "e \<in> insert (fst (last xs), (snd (last xs))\<lparr>buffer := b\<rparr>) (set xs)"
    by (rule subsetD [OF set_update_subset_insert])
  then have "e = (fst (last xs), (snd (last xs))\<lparr>buffer := b\<rparr>) \<or> e \<in> set xs"
    by (simp only: insert_iff)
  then show "y \<in> (\<lambda>e. (timeout (snd e), promise (snd e))) ` set xs"
  proof
    assume "e = (fst (last xs), (snd (last xs))\<lparr>buffer := b\<rparr>)"
    then have "y = (timeout (snd (last xs)), promise (snd (last xs)))"
      using e2 by simp
    moreover have "last xs \<in> set xs" using assms by (rule last_in_set)
    ultimately show ?thesis by (rule image_eqI)
  next
    assume "e \<in> set xs"
    with e2 show ?thesis by (rule image_eqI)
  qed
qed

lemma handles_delete:
  "(\<lambda>e. (timeout (snd e), promise (snd e))) ` set (AList.delete r xs)
     \<subseteq> (\<lambda>e. (timeout (snd e), promise (snd e))) ` set xs"
  by (auto simp: AList.delete_eq)

lemma pending_after_write:
  "pendingResponses (heap st h) \<noteq> [] \<Longrightarrow>
   (\<lambda>e. (timeout (snd e), promise (snd e))) `
      set (pendingResponses (heap (write_latest_buffer h b st) h))
   \<subseteq> (\<lambda>e. (timeout (snd e), promise (snd e))) ` set (pendingResponses (heap st h))"
  by (simp add: write_latest_buffer_heap handles_update_last)

lemma pending_after_settle:
  "pendingResponses (heap (pending_resolve pd data now st) h) = pendingResponses (heap st h)"
  "pendingResponses (heap (pending_reject pd err st) h) = pendingResponses (heap st h)"
  by (simp_all add: prim)

lemma pending_after_delete:
  "pendingResponses (heap (upd_session h (\<lambda>s. s\<lparr>pendingResponses :=
       AList.delete r (pendingResponses s)\<rparr>) st) h) = AList.delete r (pendingResponses (heap st h))"
  by (simp add: prim)

lemma dispatch_handles:
  "(\<lambda>e. (timeout (snd e), promise (snd e))) `
      set (pendingResponses (heap (handleOpenAIEvent g ev now st) h))
   \<subseteq> (\<lambda>e. (timeout (snd e), promise (snd e))) ` set (pendingResponses (heap st h))"
proof (cases "g = h")
  case False
  then show ?thesis by (simp add: dispatch_other_pending)
next
  case True
  show ?thesis
  proof (cases "getLatestPending (heap st h)")
    case None
    then show ?thesis by (simp add: handleOpenAIEvent_def Let_def True)
  next
    case (Some pd)
    then have ne: "pendingResponses (heap st h) \<noteq> []"
      using getLatestPending_Some by blast
    show ?thesis
      by (simp add: handleOpenAIEvent_def Let_def Some True pending_after_write [OF ne]
            pending_after_settle pending_after_delete handles_delete split: option.splits)
  qed
qed




subsection \<open>The calls\<close>

lemma default_responseTimeoutMs:
  "set_responseTimeoutMs cfg = None \<Longrightarrow> set_responseTimeoutMs env = None \<Longrightarrow>
   responseTimeoutMs (config (SessionManager cfg env)) = 30000"
  by (simp add: SessionManager_def num_setting_def)

lemma getSession_or_throw_Inr:
  "getSession_or_throw k st = Inr h \<Longrightarrow>
   map_of (sessions st) k = Some h \<and> status (heap st h) \<noteq> Closed \<and> status (heap st h) \<noteq> Errored"
  by (auto simp: getSession_or_throw_def split: option.splits if_splits)

lemma getSession_or_throw_cong:
  "sessions st' = sessions st \<Longrightarrow> (\<And>h. status (heap st' h) = status (heap st h)) \<Longrightarrow>
   getSession_or_throw k st' = getSession_or_throw k st"
  by (simp add: getSession_or_throw_def split: option.splits)

lemma createSession_accepted:
  assumes "\<not> (0 < maxSessions (config st) \<and> maxSessions (config st) \<le> length (sessions st))"
  shows "fst (createSession opts uuid now st) = next_ref st"
    and "promises (snd (createSession opts uuid now st)) (next_ref st) = None"
    and "sessions (snd (createSession opts uuid now st)) =
           AList.update (or_else (opt_sessionId opts) uuid) (Suc (next_ref st)) (sessions st)"
    and "heap (snd (createSession opts uuid now st)) (Suc (next_ref st)) =
           \<lparr>sid = or_else (opt_sessionId opts) uuid, ws_readyState = CONNECTING, ws_sent = [],
            ws_terminated = False, status = Connecting,
            instructions = or_else (opt_instructions opts) (defaultInstructions (config st)),
            voice = or_else (opt_voice opts) (defaultVoice (config st)),
            model = cfg_model (config st),
            metadata = (case opt_metadata opts of None \<Rightarrow> [] | Some m \<Rightarrow> m),
            createdAt = now, lastActivityAt = now, conversationHistory = [],
            pendingResponses = [],
            captured_instructions = or_else (opt_instructions opts) (defaultInstructions (config st)),
            connectTimeout = Suc (Suc (next_ref st)), createPromise = next_ref st\<rparr>"
    and "\<And>h'. h' \<noteq> Suc (next_ref st) \<Longrightarrow>
           heap (snd (createSession opts uuid now st)) h' = heap st h'"
    and "timers (snd (createSession opts uuid now st)) (Suc (Suc (next_ref st))) =
           Some (15000, ConnectDeadline (Suc (next_ref st)))"
  using assms by (auto simp: createSession_def Let_def prim)

lemma sendText_effect:
  assumes "getSession_or_throw k st = Inr h"
  shows "fst (sendText k tx opt rid now st) = next_ref st"
    and "promises (snd (sendText k tx opt rid now st)) (next_ref st) =
           (if ws_readyState (heap st h) = CONNECTING then Some (Rejected WebSocketNotOpen)
            else None)"
    and "timers (snd (sendText k tx opt rid now st)) (Suc (next_ref st)) =
           Some (responseTimeoutMs (config st), ResponseDeadline h rid (next_ref st))"
    and "config (snd (sendText k tx opt rid now st)) = config st"
    and "lastActivityAt (heap (snd (sendText k tx opt rid now st)) h) = now"
    and "map_of (pendingResponses (heap (snd (sendText k tx opt rid now st)) h)) rid =
           Some \<lparr>origin = FromText tx, options_returnAudio = opt,
                 captured_session = h, captured_sessionId = k,
                 captured_requestId = rid, startTime = now, timeout = Suc (next_ref st),
                 promise = next_ref st,
                 buffer = \<lparr>textDelta = [], audioDelta = [], inputTranscript = tx,
                    eventId = None, itemId = None\<rparr>,
                 returnAudio = (case opt of None \<Rightarrow> False | Some b \<Rightarrow> b),
                 isAudioInput = False\<rparr>"
    and "ws_sent (heap (snd (sendText k tx opt rid now st)) h) =
          (if ws_readyState (heap st h) = OPEN
           then ws_sent (heap st h) @
             [ConversationItemCreate tx (''msg_'' @ rid),
              ResponseCreate (''res_'' @ rid)
                (if opt = Some True then [''text'', ''audio''] else [''text''])]
           else ws_sent (heap st h))"
    and "\<And>g. g \<noteq> h \<Longrightarrow> heap (snd (sendText k tx opt rid now st)) g = heap st g"
proof -
  have g: "getSession_or_throw k (new_promise st) = Inr h"
    using assms by (simp add: getSession_or_throw_cong [of "new_promise st" st] prim)
  show "fst (sendText k tx opt rid now st) = next_ref st"
    by (simp add: sendText_def Let_def g)
  show "promises (snd (sendText k tx opt rid now st)) (next_ref st) =
           (if ws_readyState (heap st h) = CONNECTING then Some (Rejected WebSocketNotOpen)
            else None)"
    by (simp add: sendText_def Let_def g prim send_frames_eq)
  show "timers (snd (sendText k tx opt rid now st)) (Suc (next_ref st)) =
           Some (responseTimeoutMs (config st), ResponseDeadline h rid (next_ref st))"
    by (simp add: sendText_def Let_def g prim send_frames_eq)
  show "config (snd (sendText k tx opt rid now st)) = config st"
    by (simp add: sendText_def Let_def g prim send_frames_eq)
  show "lastActivityAt (heap (snd (sendText k tx opt rid now st)) h) = now"
    by (simp add: sendText_def Let_def g prim send_frames_eq)
  show "map_of (pendingResponses (heap (snd (sendText k tx opt rid now st)) h)) rid =
           Some \<lparr>origin = FromText tx, options_returnAudio = opt,
                 captured_session = h, captured_sessionId = k,
                 captured_requestId = rid, startTime = now, timeout = Suc (next_ref st),
                 promise = next_ref st,
                 buffer = \<lparr>textDelta = [], audioDelta = [], inputTranscript = tx,
                    eventId = None, itemId = None\<rparr>,
                 returnAudio = (case opt of None \<Rightarrow> False | Some b \<Rightarrow> b),
                 isAudioInput = False\<rparr>"
    by (simp add: sendText_def Let_def g prim send_frames_eq update_conv')
  show "ws_sent (heap (snd (sendText k tx opt rid now st)) h) =
          (if ws_readyState (heap st h) = OPEN
           then ws_sent (heap st h) @
             [ConversationItemCreate tx (''msg_'' @ rid),
              ResponseCreate (''res_'' @ rid)
                (if opt = Some True then [''text'', ''audio''] else [''text''])]
           else ws_sent (heap st h))"
    by (simp add: sendText_def Let_def g prim send_frames_eq)
  show "\<And>g. g \<noteq> h \<Longrightarrow> heap (snd (sendText k tx opt rid now st)) g = heap st g"
    by (simp add: sendText_def Let_def g prim send_frames_eq)
qed

lemma sendAudio_effect:
  assumes "getSession_or_throw k st = Inr h"
  shows "fst (sendAudio k audio opt rid now st) = next_ref st"
    and "lastActivityAt (heap (snd (sendAudio k audio opt rid now st)) h) = now"
    and "map_of (pendingResponses (heap (snd (sendAudio k audio opt rid now st)) h)) rid =
           Some \<lparr>origin = FromAudio, options_returnAudio = opt,
                 captured_session = h, captured_sessionId = k,
                 captured_requestId = rid, startTime = now, timeout = Suc (next_ref st),
                 promise = next_ref st,
                 buffer = \<lparr>textDelta = [], audioDelta = [], inputTranscript = [],
                    eventId = None, itemId = None\<rparr>,
                 returnAudio = (opt \<noteq> Some False),
                 isAudioInput = True\<rparr>"
    and "ws_sent (heap (snd (sendAudio k audio opt rid now st)) h) =
          (if ws_readyState (heap st h) = OPEN
           then ws_sent (heap st h) @
             InputAudioBufferClear # map InputAudioBufferAppend (audio_chunks audio 0) @
             [InputAudioBufferCommit (''audio_'' @ rid),
              ResponseCreate (''res_'' @ rid)
                (if opt \<noteq> Some False then [''text'', ''audio''] else [''text''])]
           else ws_sent (heap st h))"
    and "promises (snd (sendAudio k audio opt rid now st)) (next_ref st) =
           (if ws_readyState (heap st h) = CONNECTING then Some (Rejected WebSocketNotOpen)
            else None)"
proof -
  have g: "getSession_or_throw k (new_promise st) = Inr h"
    using assms by (simp add: getSession_or_throw_cong [of "new_promise st" st] prim)
  show "fst (sendAudio k audio opt rid now st) = next_ref st"
    by (simp add: sendAudio_def Let_def g)
  show "lastActivityAt (heap (snd (sendAudio k audio opt rid now st)) h) = now"
    by (simp add: sendAudio_def Let_def g prim send_frames_eq)
  show "map_of (pendingResponses (heap (snd (sendAudio k audio opt rid now st)) h)) rid =
           Some \<lparr>origin = FromAudio, options_returnAudio = opt,
                 captured_session = h, captured_sessionId = k,
                 captured_requestId = rid, startTime = now, timeout = Suc (next_ref st),
                 promise = next_ref st,
                 buffer = \<lparr>textDelta = [], audioDelta = [], inputTranscript = [],
                    eventId = None, itemId = None\<rparr>,
                 returnAudio = (opt \<noteq> Some False),
                 isAudioInput = True\<rparr>"
    by (simp add: sendAudio_def Let_def g prim send_frames_eq update_conv')
  show "ws_sent (heap (snd (sendAudio k audio opt rid now st)) h) =
          (if ws_readyState (heap st h) = OPEN
           then ws_sent (heap st h) @
             InputAudioBufferClear # map InputAudioBufferAppend (audio_chunks audio 0) @
             [InputAudioBufferCommit (''audio_'' @ rid),
              ResponseCreate (''res_'' @ rid)
                (if opt \<noteq> Some False then [''text'', ''audio''] else [''text''])]
           else ws_sent (heap st h))"
    by (simp add: sendAudio_def Let_def g prim send_frames_eq)
  show "promises (snd (sendAudio k audio opt rid now st)) (next_ref st) =
           (if ws_readyState (heap st h) = CONNECTING then Some (Rejected WebSocketNotOpen)
            else None)"
    by (simp add: sendAudio_def Let_def g prim send_frames_eq)
qed

lemma updateInstructions_heap:
  "getSession_or_throw k st = Inr h \<Longrightarrow>
   heap (snd (updateInstructions k instr now st)) =
     (heap st)(h := (heap st h)\<lparr>instructions := instr, lastActivityAt := now,
        ws_sent := (if ws_readyState (heap st h) = OPEN
                    then ws_sent (heap st h) @ [SessionUpdateInstructions instr]
                    else ws_sent (heap st h))\<rparr>)"
  by (simp add: updateInstructions_def Let_def prim ws_send_eq)

lemma updateInstructions_result:
  "getSession_or_throw k st = Inr h \<Longrightarrow>
   fst (updateInstructions k instr now st) =
     (if ws_readyState (heap st h) = CONNECTING then Inl WebSocketNotOpen
      else Inr \<lparr>success = True, error = None, ack_session_id = Some k\<rparr>)"
  by (simp add: updateInstructions_def Let_def prim ws_send_eq)

lemma updateInstructions_lastActivityAt:
  "getSession_or_throw k st = Inr h \<Longrightarrow>
   lastActivityAt (heap (snd (updateInstructions k instr now st)) h) = now"
  by (simp add: updateInstructions_heap)

lemma readers_keep_state:
  "snd (getHistory k st) = st" "snd (getSession k st) = st"
  by (simp_all add: getHistory_def getSession_def Let_def split: option.splits sum.splits)

lemma closeSession_lastActivityAt:
  "lastActivityAt (heap (snd (closeSession k st)) h') = lastActivityAt (heap st h')"
  by (simp add: closeSession_def Let_def prim rejectAllPending_fields split: option.splits)

subsection \<open>The handlers of the transport and the timers\<close>

lemma ws_on_open_eq:
  "ws_on_open h st =
     settle (createPromise (heap st h))
       (ResolvedCreated
         \<lparr>new_session_id = sid (heap st h), new_status = ''ready'',
          new_model = cfg_model (config st), new_voice = voice (heap st h),
          instructions_preview = take 100 (captured_instructions (heap st h))
            @ (if 100 < length (captured_instructions (heap st h)) then ''...'' else ''''),
          created_at = createdAt (heap st h)\<rparr>)
       (upd_session h (\<lambda>s. s\<lparr>ws_readyState := OPEN, status := Connected,
            ws_sent := ws_sent s @ [SessionUpdate (captured_instructions s) (voice s)]\<rparr>)
          (clearTimeout (connectTimeout (heap st h)) st))"
  by (simp add: ws_on_open_def Let_def prim ws_send_eq upd_session_def clearTimeout_def)

lemma transport_lastActivityAt:
  "lastActivityAt (heap (ws_on_open h0 st) h') = lastActivityAt (heap st h')"
  "lastActivityAt (heap (ws_on_error h0 err st) h') = lastActivityAt (heap st h')"
  "lastActivityAt (heap (ws_on_close h0 code st) h') = lastActivityAt (heap st h')"
  by (simp_all add: ws_on_open_eq ws_on_error_def ws_on_close_def Let_def prim
        rejectAllPending_fields)

lemma fire_timer_lastActivityAt:
  "lastActivityAt (heap (fire_timer t st) h') = lastActivityAt (heap st h')"
  by (simp add: fire_timer_def Let_def prim split: option.splits prod.splits timer_action.splits)

lemma ws_on_error_fields:
  "sessions (ws_on_error h err st) = sessions st"
  "status (heap (ws_on_error h err st) h) = Errored"
  "pendingResponses (heap (ws_on_error h err st) h) = []"
  "promises (ws_on_error h err st) q =
     (if q \<in> promise ` snd ` set (pendingResponses (heap st h)) \<and> promises st q = None
      then Some (Rejected err) else promises st q)"
  "timers (ws_on_error h err st) t =
     (if t \<in> timeout ` snd ` set (pendingResponses (heap st h)) \<or> t = connectTimeout (heap st h)
      then None else timers st t)"
  "instructions (heap (ws_on_error h err st) h') = instructions (heap st h')"
  "conversationHistory (heap (ws_on_error h err st) h') = conversationHistory (heap st h')"
  by (simp_all add: ws_on_error_def Let_def prim rejectAllPending_fields)

lemma ws_on_close_promises:
  "promises (ws_on_close h code st) q =
     (if q \<in> promise ` snd ` set (pendingResponses (heap st h)) \<and> promises st q = None
      then Some (Rejected (ClosedByPeer code)) else promises st q)"
  by (simp add: ws_on_close_def Let_def prim rejectAllPending_fields)

subsection \<open>The example runs\<close>

lemmas eval_defs = SessionManager_def no_settings_def createSession_def Let_def new_promise_def
  settle_def setTimeout_def clearTimeout_def upd_session_def ws_terminate_def
  or_else_def num_setting_def

lemma ex_created_facts:
  "sessions ex_created = [(''s1'', Suc 0)]"
  "status (heap ex_created (Suc 0)) = Connecting"
  "ws_readyState (heap ex_created (Suc 0)) = CONNECTING"
  "next_ref ex_created = 3"
  "pendingResponses (heap ex_created (Suc 0)) = []"
  "lastActivityAt (heap ex_created (Suc 0)) = 1000"
  "promises ex_created 0 = None"
  "promises ex_created 3 = None"
  "timers ex_created 2 = Some (15000, ConnectDeadline (Suc 0))"
  "responseTimeoutMs (config ex_created) = 30000"
  "maxSessions (config ex_created) = 0"
  "connectTimeout (heap ex_created (Suc 0)) = 2"
  "createPromise (heap ex_created (Suc 0)) = 0"
  "sid (heap ex_created (Suc 0)) = ''s1''"
  "conversationHistory (heap ex_created (Suc 0)) = []"
  "ws_sent (heap ex_created (Suc 0)) = []"
  "captured_instructions (heap ex_created (Suc 0)) = default_instructions_text"
  "instructions (heap ex_created (Suc 0)) = default_instructions_text"
  "voice (heap ex_created (Suc 0)) = ''alloy''"
  "h \<noteq> Suc 0 \<Longrightarrow> heap ex_created h = unallocated"
  by (simp_all add: ex_created_def eval_defs)

lemma ex_connected_facts:
  "sessions ex_connected = [(''s1'', Suc 0)]"
  "status (heap ex_connected (Suc 0)) = Connected"
  "ws_readyState (heap ex_connected (Suc 0)) = OPEN"
  "next_ref ex_connected = 3"
  "pendingResponses (heap ex_connected (Suc 0)) = []"
  "lastActivityAt (heap ex_connected (Suc 0)) = 1000"
  "conversationHistory (heap ex_connected (Suc 0)) = []"
  "timers ex_connected 2 = None"
  "responseTimeoutMs (config ex_connected) = 30000"
  "h \<noteq> Suc 0 \<Longrightarrow> heap ex_connected h = unallocated"
  by (simp_all add: ex_connected_def ws_on_open_eq prim ex_created_facts)

lemma ex_connected_available: "getSession_or_throw ''s1'' ex_connected = Inr (Suc 0)"
  by (simp add: getSession_or_throw_def ex_connected_facts)

lemma ex_connected_more:
  "promises ex_connected 3 = None"
  "config ex_connected = config ex_created"
  "ws_sent (heap ex_connected (Suc 0)) = [SessionUpdate default_instructions_text ''alloy'']"
  "sid (heap ex_connected (Suc 0)) = ''s1''"
  "createPromise (heap ex_connected (Suc 0)) = 0"
  "instructions (heap ex_connected (Suc 0)) = default_instructions_text"
  by (simp_all add: ex_connected_def ws_on_open_eq prim ex_created_facts)

lemma ex_pending_facts:
  "sessions ex_pending = [(''s1'', Suc 0)]"
  "status (heap ex_pending (Suc 0)) = Connected"
  "ws_readyState (heap ex_pending (Suc 0)) = OPEN"
  "next_ref ex_pending = 5"
  "promises ex_pending 3 = None"
  "timers ex_pending 4 = Some (30000, ResponseDeadline (Suc 0) ''r1'' 3)"
  "lastActivityAt (heap ex_pending (Suc 0)) = 2000"
  "pendingResponses (heap ex_pending (Suc 0)) =
     [(''r1'', \<lparr>origin = FromText ''hola'', options_returnAudio = None,
                 captured_session = Suc 0, captured_sessionId = ''s1'',
                 captured_requestId = ''r1'', startTime = 2000, timeout = 4,
                 promise = 3,
                 buffer = \<lparr>textDelta = [], audioDelta = [], inputTranscript = ''hola'',
                    eventId = None, itemId = None\<rparr>,
                 returnAudio = False, isAudioInput = False\<rparr>)]"
  "instructions (heap ex_pending (Suc 0)) = default_instructions_text"
  "conversationHistory (heap ex_pending (Suc 0)) = []"
  "config ex_pending = config ex_created"
  using ex_connected_available
  by (simp_all add: ex_pending_def sendText_def Let_def prim send_frames_eq ex_connected_facts
        ex_connected_more ex_created_facts
        getSession_or_throw_cong [of "new_promise ex_connected" ex_connected])

lemmas ex_pending_more = ex_pending_facts(9-11)

lemma ex_replied_facts:
  "sessions ex_replied = [(''s1'', Suc 0)]"
  "status (heap ex_replied (Suc 0)) = Connected"
  "ws_readyState (heap ex_replied (Suc 0)) = OPEN"
  "pendingResponses (heap ex_replied (Suc 0)) = []"
  "timers ex_replied 4 = None"
  "instructions (heap ex_replied (Suc 0)) = default_instructions_text"
  "conversationHistory (heap ex_replied (Suc 0)) =
     [\<lparr>role = ''user'', content = ''hola'', timestamp = 2500, content_type = None,
       has_audio = None\<rparr>,
      \<lparr>role = ''assistant'', content = ''Ho'', timestamp = 2500, content_type = None,
       has_audio = Some False\<rparr>]"
  "promises ex_replied 3 =
     Some (ResolvedReply
       \<lparr>response_text = ''Ho'', input_transcript = None, duration_ms = 500,
        session_id = ''s1'', request_id = ''r1'', audio_base64 = None, audio_format = None,
        audio_sample_rate = None\<rparr>)"
  by (simp_all add: ex_replied_def deliver_def ws_on_message_def handleOpenAIEvent_def
        ex_text_delta_def ex_done_def getLatestPending_def getLatestPendingId_def Let_def
        ex_pending_facts write_latest_buffer_heap prim or_empty_def or_else_def
        history_turns_def make_result_def
        pending_resolve_promises)

lemma ex_replied_more:
  "next_ref ex_replied = 5"
  "config ex_replied = config ex_created"
  by (simp_all add: ex_replied_def deliver_def ws_on_message_def dispatch_next_ref
        dispatch_config ex_pending_facts)

lemma ex_replied_activity: "lastActivityAt (heap ex_replied (Suc 0)) = 2000"
  by (simp add: ex_replied_def deliver_def ws_on_message_def dispatch_lastActivityAt
        ex_pending_facts)

lemma ex_replied_available: "getSession_or_throw ''s1'' ex_replied = Inr (Suc 0)"
  by (simp add: getSession_or_throw_def ex_replied_facts)

lemma ex_audio_pending_facts:
  "promises ex_audio_pending 3 = None"
  "pendingResponses (heap ex_audio_pending (Suc 0)) =
     [(''r1'', \<lparr>origin = FromAudio, options_returnAudio = None,
                 captured_session = Suc 0, captured_sessionId = ''s1'',
                 captured_requestId = ''r1'', startTime = 2000, timeout = 4,
                 promise = 3,
                 buffer = \<lparr>textDelta = [], audioDelta = [], inputTranscript = [],
                    eventId = None, itemId = None\<rparr>,
                 returnAudio = True, isAudioInput = True\<rparr>)]"
  using ex_connected_available
  by (simp_all add: ex_audio_pending_def sendAudio_def Let_def prim send_frames_eq
        ex_connected_facts ex_connected_more
        getSession_or_throw_cong [of "new_promise ex_connected" ex_connected])

subsection \<open>Handles are allocated before they are used\<close>

text \<open>
  \<open>handles_below\<close> holds of the manager as constructed and is kept by every call,
  every handler of a transport and every timer: a pending entry is registered with a
  promise and a timer just drawn, and \<open>next_ref\<close> never goes down.
\<close>

lemma handles_belowI:
  assumes "\<And>h e. e \<in> set (pendingResponses (heap st h)) \<Longrightarrow>
             timeout (snd e) < next_ref st \<and> promise (snd e) < next_ref st"
  shows "handles_below st"
  using assms by (simp add: handles_below_def list_all_iff)

lemma handles_belowD:
  assumes "handles_below st" and "e \<in> set (pendingResponses (heap st h))"
  shows "timeout (snd e) < next_ref st \<and> promise (snd e) < next_ref st"
proof -
  have "list_all (\<lambda>entry. timeout (snd entry) < next_ref st \<and> promise (snd entry) < next_ref st)
          (pendingResponses (heap st h))"
    using assms(1) by (simp add: handles_below_def)
  with assms(2) show ?thesis by (simp add: list_all_iff)
qed

lemma handles_below_kept:
  assumes "handles_below st"
    and "next_ref st \<le> next_ref st'"
    and "\<And>h. (\<lambda>e. (timeout (snd e), promise (snd e))) ` set (pendingResponses (heap st' h))
            \<subseteq> (\<lambda>e. (timeout (snd e), promise (snd e))) ` set (pendingResponses (heap st h))"
  shows "handles_below st'"
proof (rule handles_belowI)
  fix h e assume "e \<in> set (pendingResponses (heap st' h))"
  then have "(timeout (snd e), promise (snd e))
      \<in> (\<lambda>e. (timeout (snd e), promise (snd e))) ` set (pendingResponses (heap st' h))"
    by (rule imageI)
  then have "(timeout (snd e), promise (snd e))
      \<in> (\<lambda>e. (timeout (snd e), promise (snd e))) ` set (pendingResponses (heap st h))"
    using assms(3) by (rule rev_subsetD)
  then obtain e0 where e0: "e0 \<in> set (pendingResponses (heap st h))"
    and eq: "(timeout (snd e), promise (snd e)) = (timeout (snd e0), promise (snd e0))"
    by (rule imageE)
  from handles_belowD [OF assms(1) e0] eq assms(2)
  show "timeout (snd e) < next_ref st' \<and> promise (snd e) < next_ref st'"
    by simp
qed

lemma set_update_entry: "set (AList.update k v al) \<subseteq> insert (k, v) (set al)"
  by (induction al) auto

lemma handles_below_SessionManager: "handles_below (SessionManager given env)"
  by (simp add: handles_below_def SessionManager_def unallocated_def)

lemma handles_below_createSession:
  assumes "handles_below st"
  shows "handles_below (snd (createSession opts uuid now st))"
proof (rule handles_below_kept [OF assms])
  show "next_ref st \<le> next_ref (snd (createSession opts uuid now st))"
    by (simp add: createSession_def Let_def prim)
next
  fix h
  show "(\<lambda>e. (timeout (snd e), promise (snd e))) `
          set (pendingResponses (heap (snd (createSession opts uuid now st)) h))
        \<subseteq> (\<lambda>e. (timeout (snd e), promise (snd e))) ` set (pendingResponses (heap st h))"
    by (simp add: createSession_def Let_def prim)
qed

lemma handles_below_event:
  assumes "handles_below st"
  shows "handles_below (ws_on_message g ev now st)"
  unfolding ws_on_message_def
  by (rule handles_below_kept [OF assms]) (simp_all add: dispatch_next_ref dispatch_handles)

lemma handles_below_deliver:
  assumes "handles_below st"
  shows "handles_below (deliver evs st)"
  using assms
proof (induction evs arbitrary: st)
  case Nil
  then show ?case by (simp add: deliver_def)
next
  case (Cons a evs)
  obtain g ev now where a: "a = (g, ev, now)" by (cases a)
  have "handles_below (ws_on_message g ev now st)"
    using Cons.prems by (rule handles_below_event)
  then have "handles_below (deliver evs (ws_on_message g ev now st))"
    by (rule Cons.IH)
  then show ?case by (simp add: deliver_def a)
qed

lemma handles_below_ws_on_open:
  assumes "handles_below st"
  shows "handles_below (ws_on_open g st)"
  by (rule handles_below_kept [OF assms]) (simp_all add: ws_on_open_def Let_def ws_send_eq prim)

lemma handles_below_ws_on_error:
  assumes "handles_below st"
  shows "handles_below (ws_on_error g err st)"
  by (rule handles_below_kept [OF assms])
     (simp_all add: ws_on_error_def Let_def prim rejectAllPending_fields)

lemma handles_below_ws_on_close:
  assumes "handles_below st"
  shows "handles_below (ws_on_close g code st)"
  by (rule handles_below_kept [OF assms])
     (simp_all add: ws_on_close_def Let_def prim rejectAllPending_fields)

lemma handles_below_fire_timer:
  assumes "handles_below st"
  shows "handles_below (fire_timer t st)"
proof (rule handles_below_kept [OF assms])
  show "next_ref st \<le> next_ref (fire_timer t st)"
    by (simp add: fire_timer_def Let_def prim split: option.splits timer_action.splits)
next
  fix h
  show "(\<lambda>e. (timeout (snd e), promise (snd e))) `
          set (pendingResponses (heap (fire_timer t st) h))
        \<subseteq> (\<lambda>e. (timeout (snd e), promise (snd e))) ` set (pendingResponses (heap st h))"
    by (simp add: fire_timer_def Let_def prim handles_delete
          split: option.splits timer_action.splits)
qed

lemma handles_below_closeSession:
  assumes "handles_below st"
  shows "handles_below (snd (closeSession k st))"
  by (rule handles_below_kept [OF assms])
     (simp_all add: closeSession_def Let_def prim rejectAllPending_fields split: option.splits)

lemma handles_below_updateInstructions:
  assumes "handles_below st"
  shows "handles_below (snd (updateInstructions k instr now st))"
  by (rule handles_below_kept [OF assms])
     (simp_all add: updateInstructions_def Let_def prim ws_send_eq split: sum.splits)

lemma handles_below_sendText:
  assumes "handles_below st"
  shows "handles_below (snd (sendText k tx opt rid now st))"
proof (cases "getSession_or_throw k st")
  case (Inl e)
  then have g: "getSession_or_throw k (new_promise st) = Inl e"
    by (simp add: getSession_or_throw_cong [of "new_promise st" st] prim)
  show ?thesis
    by (rule handles_below_kept [OF assms]) (simp_all add: sendText_def Let_def g prim)
next
  case (Inr h)
  have g: "getSession_or_throw k (new_promise st) = Inr h"
    using Inr by (simp add: getSession_or_throw_cong [of "new_promise st" st] prim)
  have nr: "next_ref (snd (sendText k tx opt rid now st)) = Suc (Suc (next_ref st))"
    by (simp add: sendText_def Let_def g prim send_frames_eq)
  have other: "\<And>g. g \<noteq> h \<Longrightarrow>
      pendingResponses (heap (snd (sendText k tx opt rid now st)) g)
        = pendingResponses (heap st g)"
    by (simp add: sendText_def Let_def g prim send_frames_eq)
  have pend: "pendingResponses (heap (snd (sendText k tx opt rid now st)) h)
      = AList.update rid
          \<lparr>origin = FromText tx, options_returnAudio = opt,
           captured_session = h, captured_sessionId = k,
           captured_requestId = rid, startTime = now, timeout = Suc (next_ref st),
           promise = next_ref st,
           buffer = \<lparr>textDelta = [], audioDelta = [], inputTranscript = tx,
              eventId = None, itemId = None\<rparr>,
           returnAudio = (case opt of None \<Rightarrow> False | Some b \<Rightarrow> b),
           isAudioInput = False\<rparr> (pendingResponses (heap st h))"
    by (simp add: sendText_def Let_def g prim send_frames_eq)
  show ?thesis
  proof (rule handles_belowI)
    fix g e assume e: "e \<in> set (pendingResponses (heap (snd (sendText k tx opt rid now st)) g))"
    show "timeout (snd e) < next_ref (snd (sendText k tx opt rid now st))
        \<and> promise (snd e) < next_ref (snd (sendText k tx opt rid now st))"
    proof (cases "g = h")
      case False
      then have "e \<in> set (pendingResponses (heap st g))"
        using e by (simp add: other)
      from handles_belowD [OF assms this] show ?thesis by (simp add: nr)
    next
      case True
      from e have "e \<in> insert (rid,
           \<lparr>origin = FromText tx, options_returnAudio = opt,
           captured_session = h, captured_sessionId = k,
           captured_requestId = rid, startTime = now, timeout = Suc (next_ref st),
           promise = next_ref st,
           buffer = \<lparr>textDelta = [], audioDelta = [], inputTranscript = tx,
              eventId = None, itemId = None\<rparr>,
           returnAudio = (case opt of None \<Rightarrow> False | Some b \<Rightarrow> b),
           isAudioInput = False\<rparr>) (set (pendingResponses (heap st h)))"
        unfolding True pend
        by (rule subsetD [OF set_update_entry])
      then have "e = (rid, 
           \<lparr>origin = FromText tx, options_returnAudio = opt,
           captured_session = h, captured_sessionId = k,
           captured_requestId = rid, startTime = now, timeout = Suc (next_ref st),
           promise = next_ref st,
           buffer = \<lparr>textDelta = [], audioDelta = [], inputTranscript = tx,
              eventId = None, itemId = None\<rparr>,
           returnAudio = (case opt of None \<Rightarrow> False | Some b \<Rightarrow> b),
           isAudioInput = False\<rparr>) \<or> e \<in> set (pendingResponses (heap st h))"
        by (simp only: insert_iff)
      then show ?thesis
      proof
        assume "e = (rid, 
           \<lparr>origin = FromText tx, options_returnAudio = opt,
           captured_session = h, captured_sessionId = k,
           captured_requestId = rid, startTime = now, timeout = Suc (next_ref st),
           promise = next_ref st,
           buffer = \<lparr>textDelta = [], audioDelta = [], inputTranscript = tx,
              eventId = None, itemId = None\<rparr>,
           returnAudio = (case opt of None \<Rightarrow> False | Some b \<Rightarrow> b),
           isAudioInput = False\<rparr>)"
        then show ?thesis by (simp add: nr)
      next
        assume "e \<in> set (pendingResponses (heap st h))"
        from handles_belowD [OF assms this] show ?thesis by (simp add: nr)
      qed
    qed
  qed
qed

lemma handles_below_sendAudio:
  assumes "handles_below st"
  shows "handles_below (snd (sendAudio k audio opt rid now st))"
proof (cases "getSession_or_throw k st")
  case (Inl e)
  then have g: "getSession_or_throw k (new_promise st) = Inl e"
    by (simp add: getSession_or_throw_cong [of "new_promise st" st] prim)
  show ?thesis
    by (rule handles_below_kept [OF assms]) (simp_all add: sendAudio_def Let_def g prim)
next
  case (Inr h)
  have g: "getSession_or_throw k (new_promise st) = Inr h"
    using Inr by (simp add: getSession_or_throw_cong [of "new_promise st" st] prim)
  have nr: "next_ref (snd (sendAudio k audio opt rid now st)) = Suc (Suc (next_ref st))"
    by (simp add: sendAudio_def Let_def g prim send_frames_eq)
  have other: "\<And>g. g \<noteq> h \<Longrightarrow>
      pendingResponses (heap (snd (sendAudio k audio opt rid now st)) g)
        = pendingResponses (heap st g)"
    by (simp add: sendAudio_def Let_def g prim send_frames_eq)
  have pend: "pendingResponses (heap (snd (sendAudio k audio opt rid now st)) h)
      = AList.update rid
          \<lparr>origin = FromAudio, options_returnAudio = opt,
           captured_session = h, captured_sessionId = k,
           captured_requestId = rid, startTime = now, timeout = Suc (next_ref st),
           promise = next_ref st,
           buffer = \<lparr>textDelta = [], audioDelta = [], inputTranscript = [],
              eventId = None, itemId = None\<rparr>,
           returnAudio = (opt \<noteq> Some False),
           isAudioInput = True\<rparr> (pendingResponses (heap st h))"
    by (simp add: sendAudio_def Let_def g prim send_frames_eq)
  show ?thesis
  proof (rule handles_belowI)
    fix g e assume e: "e \<in> set (pendingResponses (heap (snd (sendAudio k audio opt rid now st)) g))"
    show "timeout (snd e) < next_ref (snd (sendAudio k audio opt rid now st))
        \<and> promise (snd e) < next_ref (snd (sendAudio k audio opt rid now st))"
    proof (cases "g = h")
      case False
      then have "e \<in> set (pendingResponses (heap st g))"
        using e by (simp add: other)
      from handles_belowD [OF assms this] show ?thesis by (simp add: nr)
    next
      case True
      from e have "e \<in> insert (rid,
           \<lparr>origin = FromAudio, options_returnAudio = opt,
           captured_session = h, captured_sessionId = k,
           captured_requestId = rid, startTime = now, timeout = Suc (next_ref st),
           promise = next_ref st,
           buffer = \<lparr>textDelta = [], audioDelta = [], inputTranscript = [],
              eventId = None, itemId = None\<rparr>,
           returnAudio = (opt \<noteq> Some False),
           isAudioInput = True\<rparr>) (set (pendingResponses (heap st h)))"
        unfolding True pend
        by (rule subsetD [OF set_update_entry])
      then have "e = (rid, 
           \<lparr>origin = FromAudio, options_returnAudio = opt,
           captured_session = h, captured_sessionId = k,
           captured_requestId = rid, startTime = now, timeout = Suc (next_ref st),
           promise = next_ref st,
           buffer = \<lparr>textDelta = [], audioDelta = [], inputTranscript = [],
              eventId = None, itemId = None\<rparr>,
           returnAudio = (opt \<noteq> Some False),
           isAudioInput = True\<rparr>) \<or> e \<in> set (pendingResponses (heap st h))"
        by (simp only: insert_iff)
      then show ?thesis
      proof
        assume "e = (rid, 
           \<lparr>origin = FromAudio, options_returnAudio = opt,
           captured_session = h, captured_sessionId = k,
           captured_requestId = rid, startTime = now, timeout = Suc (next_ref st),
           promise = next_ref st,
           buffer = \<lparr>textDelta = [], audioDelta = [], inputTranscript = [],
              eventId = None, itemId = None\<rparr>,
           returnAudio = (opt \<noteq> Some False),
           isAudioInput = True\<rparr>)"
        then show ?thesis by (simp add: nr)
      next
        assume "e \<in> set (pendingResponses (heap st h))"
        from handles_belowD [OF assms this] show ?thesis by (simp add: nr)
      qed
    qed
  qed
qed

subsection \<open>Response timeout\<close>




subsection \<open>Events without a pending call\<close>

text \<open>
  C9. When the pending table of a session object is empty, the dispatcher returns the
  manager as it was, whatever the event: status, history, pending table, promises and
  timers are unchanged, and there is no throwing branch.
\<close>

theorem dispatch_no_pending:
  "pendingResponses (heap st h) = [] \<Longrightarrow> handleOpenAIEvent h ev now st = st"
  by (simp add: handleOpenAIEvent_def getLatestPending_def Let_def)

theorem dispatch_no_pending_witness:
  "pendingResponses (heap ex_connected 1) = []
   \<and> handleOpenAIEvent 1 ex_text_delta 2100 ex_connected = ex_connected"
proof -
  have e: "pendingResponses (heap ex_connected 1) = []"
    by (simp add: ex_connected_facts)
  show ?thesis
    by (rule conjI [OF e dispatch_no_pending [OF e]])
qed

subsection \<open>Closing a session\<close>

text \<open>
  C6. \<open>closeSession\<close> has no throwing branch. For an id the map does not hold it
  returns the not-found object and leaves the manager as it was. For a live id it
  returns success, the id is no longer in the map, the transport was terminated, the
  pending table of the session object is empty, every response timer of a pending call
  is cleared and every pending call that was unsettled is rejected with the
  manual-close error; a second \<open>closeSession\<close> with the same id then returns the
  not-found object.
\<close>

theorem closeSession_idempotent:
  "(map_of (sessions st) k = None \<longrightarrow> closeSession k st = (not_found_ack, st))
   \<and> (map_of (sessions st) k = Some h \<longrightarrow>
        fst (closeSession k st) = \<lparr>success = True, error = None, ack_session_id = Some k\<rparr>
        \<and> map_of (sessions (snd (closeSession k st))) k = None
        \<and> ws_terminated (heap (snd (closeSession k st)) h)
        \<and> pendingResponses (heap (snd (closeSession k st)) h) = []
        \<and> list_all (\<lambda>entry.
              timers (snd (closeSession k st)) (timeout (snd entry)) = None
              \<and> (promises st (promise (snd entry)) = None \<longrightarrow>
                   promises (snd (closeSession k st)) (promise (snd entry))
                     = Some (Rejected ClosedManually)))
            (pendingResponses (heap st h))
        \<and> closeSession k (snd (closeSession k st)) = (not_found_ack, snd (closeSession k st)))"
proof (intro conjI impI)
  assume "map_of (sessions st) k = None"
  then show "closeSession k st = (not_found_ack, st)"
    by (simp add: closeSession_def not_found_ack_def)
next
  assume live: "map_of (sessions st) k = Some h"
  have snd_eq: "snd (closeSession k st) =
      (ws_terminate h (rejectAllPending h ClosedManually st))
        \<lparr>sessions := AList.delete k (sessions st)\<rparr>"
    using live by (simp add: closeSession_def Let_def prim rejectAllPending_fields)
  show "fst (closeSession k st) = \<lparr>success = True, error = None, ack_session_id = Some k\<rparr>"
    using live by (simp add: closeSession_def Let_def)
  show gone: "map_of (sessions (snd (closeSession k st))) k = None"
    by (simp add: snd_eq delete_conv')
  show "ws_terminated (heap (snd (closeSession k st)) h)"
    by (simp add: snd_eq prim)
  show "pendingResponses (heap (snd (closeSession k st)) h) = []"
    by (simp add: snd_eq prim rejectAllPending_fields)
  show "list_all (\<lambda>entry.
              timers (snd (closeSession k st)) (timeout (snd entry)) = None
              \<and> (promises st (promise (snd entry)) = None \<longrightarrow>
                   promises (snd (closeSession k st)) (promise (snd entry))
                     = Some (Rejected ClosedManually)))
            (pendingResponses (heap st h))"
    by (simp add: snd_eq prim rejectAllPending_fields list_all_iff)
  show "closeSession k (snd (closeSession k st)) = (not_found_ack, snd (closeSession k st))"
    using gone by (simp add: closeSession_def not_found_ack_def)
qed

theorem closeSession_idempotent_witness:
  "map_of (sessions ex_pending) ''s1'' = Some 1
   \<and> map_of (sessions ex_pending) ''s2'' = None
   \<and> closeSession ''s2'' ex_pending = (not_found_ack, ex_pending)
   \<and> fst (closeSession ''s1'' ex_pending)
        = \<lparr>success = True, error = None, ack_session_id = Some ''s1''\<rparr>
   \<and> map_of (sessions (snd (closeSession ''s1'' ex_pending))) ''s1'' = None
   \<and> ws_terminated (heap (snd (closeSession ''s1'' ex_pending)) 1)
   \<and> pendingResponses (heap (snd (closeSession ''s1'' ex_pending)) 1) = []
   \<and> promises ex_pending 3 = None
   \<and> promises (snd (closeSession ''s1'' ex_pending)) 3 = Some (Rejected ClosedManually)
   \<and> timers (snd (closeSession ''s1'' ex_pending)) 4 = None
   \<and> closeSession ''s1'' (snd (closeSession ''s1'' ex_pending))
        = (not_found_ack, snd (closeSession ''s1'' ex_pending))"
proof -
  have live: "map_of (sessions ex_pending) ''s1'' = Some 1"
    and unknown: "map_of (sessions ex_pending) ''s2'' = None"
    by (simp_all add: ex_pending_facts)
  from closeSession_idempotent [of ex_pending "''s2''" 0] unknown
  have a: "closeSession ''s2'' ex_pending = (not_found_ack, ex_pending)" by blast
  from closeSession_idempotent [of ex_pending "''s1''" 1] live
  have b: "fst (closeSession ''s1'' ex_pending)
             = \<lparr>success = True, error = None, ack_session_id = Some ''s1''\<rparr>
        \<and> map_of (sessions (snd (closeSession ''s1'' ex_pending))) ''s1'' = None
        \<and> ws_terminated (heap (snd (closeSession ''s1'' ex_pending)) 1)
        \<and> pendingResponses (heap (snd (closeSession ''s1'' ex_pending)) 1) = []
        \<and> list_all (\<lambda>entry.
              timers (snd (closeSession ''s1'' ex_pending)) (timeout (snd entry)) = None
              \<and> (promises ex_pending (promise (snd entry)) = None \<longrightarrow>
                   promises (snd (closeSession ''s1'' ex_pending)) (promise (snd entry))
                     = Some (Rejected ClosedManually)))
            (pendingResponses (heap ex_pending 1))
        \<and> closeSession ''s1'' (snd (closeSession ''s1'' ex_pending))
             = (not_found_ack, snd (closeSession ''s1'' ex_pending))"
    by blast
  have c: "promises ex_pending 3 = None" by (simp add: ex_pending_facts)
  from b c have d: "promises (snd (closeSession ''s1'' ex_pending)) 3 = Some (Rejected ClosedManually)"
    "timers (snd (closeSession ''s1'' ex_pending)) 4 = None"
    by (simp_all add: ex_pending_facts)
  show ?thesis using live unknown a b c d by blast
qed

subsection \<open>Updating the instructions\<close>

text \<open>
  C8, as the code has it. \<open>updateInstructions\<close> leaves the conversation history of
  every session object as it was. For a session \<open>_getSession\<close> admits it sets the
  \<open>instructions\<close> field to the new text; it then returns success with the
  configuration update sent when the socket is open, and throws the error of
  \<open>ws.send\<close> with nothing sent when the socket is still connecting. For any other
  session id (unknown, or a session in status \<open>error\<close> or \<open>closed\<close>) it throws the
  error of \<open>_getSession\<close> and the manager stays as it was.
\<close>

theorem updateInstructions_keeps_history:
  "(\<forall>h'. conversationHistory (heap (snd (updateInstructions k instr now st)) h')
          = conversationHistory (heap st h'))
   \<and> (getSession_or_throw k st = Inr h \<longrightarrow>
        instructions (heap (snd (updateInstructions k instr now st)) h) = instr)
   \<and> (getSession_or_throw k st = Inr h \<and> ws_readyState (heap st h) = OPEN \<longrightarrow>
        fst (updateInstructions k instr now st)
          = Inr \<lparr>success = True, error = None, ack_session_id = Some k\<rparr>
        \<and> ws_sent (heap (snd (updateInstructions k instr now st)) h)
             = ws_sent (heap st h) @ [SessionUpdateInstructions instr])
   \<and> (getSession_or_throw k st = Inr h \<and> ws_readyState (heap st h) = CONNECTING \<longrightarrow>
        fst (updateInstructions k instr now st) = Inl WebSocketNotOpen
        \<and> ws_sent (heap (snd (updateInstructions k instr now st)) h) = ws_sent (heap st h))
   \<and> (\<forall>e. getSession_or_throw k st = Inl e \<longrightarrow> updateInstructions k instr now st = (Inl e, st))"
proof (intro conjI allI impI)
  fix h'
  show "conversationHistory (heap (snd (updateInstructions k instr now st)) h')
          = conversationHistory (heap st h')"
  proof (cases "getSession_or_throw k st")
    case (Inl e)
    then show ?thesis by (simp add: updateInstructions_def)
  next
    case (Inr h)
    then show ?thesis by (simp add: updateInstructions_heap)
  qed
next
  assume "getSession_or_throw k st = Inr h"
  then show "instructions (heap (snd (updateInstructions k instr now st)) h) = instr"
    by (simp add: updateInstructions_heap)
next
  assume a: "getSession_or_throw k st = Inr h \<and> ws_readyState (heap st h) = OPEN"
  then show "fst (updateInstructions k instr now st)
          = Inr \<lparr>success = True, error = None, ack_session_id = Some k\<rparr>"
    by (simp add: updateInstructions_result)
  from a show "ws_sent (heap (snd (updateInstructions k instr now st)) h)
             = ws_sent (heap st h) @ [SessionUpdateInstructions instr]"
    by (simp add: updateInstructions_heap)
next
  assume a: "getSession_or_throw k st = Inr h \<and> ws_readyState (heap st h) = CONNECTING"
  then show "fst (updateInstructions k instr now st) = Inl WebSocketNotOpen"
    by (simp add: updateInstructions_result)
  from a show "ws_sent (heap (snd (updateInstructions k instr now st)) h) = ws_sent (heap st h)"
    by (simp add: updateInstructions_heap)
next
  fix e assume "getSession_or_throw k st = Inl e"
  then show "updateInstructions k instr now st = (Inl e, st)"
    by (simp add: updateInstructions_def)
qed

theorem updateInstructions_keeps_history_witness:
  "getSession_or_throw ''s1'' ex_replied = Inr 1
   \<and> ws_readyState (heap ex_replied 1) = OPEN
   \<and> getSession_or_throw ''s2'' ex_replied = Inl (SessionNotFound ''s2'')
   \<and> getSession_or_throw ''s1'' ex_created = Inr 1
   \<and> ws_readyState (heap ex_created 1) = CONNECTING
   \<and> instructions (heap (snd (updateInstructions ''s1'' ''Be brief.'' 3000 ex_replied)) 1)
        = ''Be brief.''
   \<and> fst (updateInstructions ''s1'' ''Be brief.'' 3000 ex_replied)
        = Inr \<lparr>success = True, error = None, ack_session_id = Some ''s1''\<rparr>
   \<and> conversationHistory (heap (snd (updateInstructions ''s1'' ''Be brief.'' 3000 ex_replied)) 1)
        = [\<lparr>role = ''user'', content = ''hola'', timestamp = 2500, content_type = None,
            has_audio = None\<rparr>,
           \<lparr>role = ''assistant'', content = ''Ho'', timestamp = 2500, content_type = None,
            has_audio = Some False\<rparr>]
   \<and> updateInstructions ''s2'' ''Be brief.'' 3000 ex_replied
        = (Inl (SessionNotFound ''s2''), ex_replied)
   \<and> fst (updateInstructions ''s1'' ''Be brief.'' 1500 ex_created) = Inl WebSocketNotOpen
   \<and> instructions (heap (snd (updateInstructions ''s1'' ''Be brief.'' 1500 ex_created)) 1)
        = ''Be brief.''
   \<and> ws_sent (heap (snd (updateInstructions ''s1'' ''Be brief.'' 1500 ex_created)) 1) = []"
proof -
  have a: "getSession_or_throw ''s1'' ex_replied = Inr 1"
    and b: "getSession_or_throw ''s2'' ex_replied = Inl (SessionNotFound ''s2'')"
    and c: "ws_readyState (heap ex_replied 1) = OPEN"
    by (simp_all add: getSession_or_throw_def ex_replied_facts)
  have d: "getSession_or_throw ''s1'' ex_created = Inr 1"
    and e: "ws_readyState (heap ex_created 1) = CONNECTING"
    and f: "ws_sent (heap ex_created 1) = []"
    by (simp_all add: getSession_or_throw_def ex_created_facts)
  show ?thesis
    using a b c d e f
      updateInstructions_keeps_history [of "''s1''" "''Be brief.''" 3000 ex_replied 1]
      updateInstructions_keeps_history [of "''s2''" "''Be brief.''" 3000 ex_replied 1]
      updateInstructions_keeps_history [of "''s1''" "''Be brief.''" 1500 ex_created 1]
    by (simp add: ex_replied_facts)
qed

text \<open>
  C8 as stated fails for a session in status \<open>error\<close>, which stays in the map until
  its transport closes: \<open>updateInstructions\<close> throws the error of \<open>_getSession\<close> and the
  \<open>instructions\<close> field keeps its old text.
\<close>

theorem updateInstructions_errored_session:
  "map_of (sessions ex_errored) ''s1'' = Some 1
   \<and> status (heap ex_errored 1) = Errored
   \<and> instructions (heap ex_errored 1) = default_instructions_text
   \<and> fst (updateInstructions ''s1'' ''Be brief.'' 3000 ex_errored)
        = Inl (SessionUnavailable Errored)
   \<and> instructions (heap (snd (updateInstructions ''s1'' ''Be brief.'' 3000 ex_errored)) 1)
        = default_instructions_text
   \<and> default_instructions_text \<noteq> ''Be brief.''"
  by (simp add: ex_errored_def updateInstructions_def getSession_or_throw_def
        ws_on_error_fields ex_replied_facts default_instructions_text_def)

subsection \<open>The default of \<open>returnAudio\<close>\<close>

text \<open>
  C10. With \<open>options.returnAudio\<close> omitted, on a session \<open>_getSession\<close> admits,
  \<open>sendText\<close> registers an entry whose \<open>returnAudio\<close> is false and whose result has no
  \<open>audio_base64\<close> whatever the buffer holds, and \<open>sendAudio\<close> registers an entry whose
  \<open>returnAudio\<close> is true and whose result has \<open>audio_base64\<close>, the chunks joined,
  whenever the buffer holds a chunk. When the socket is open, so that the request goes
  out, \<open>sendText\<close> asks for the modalities \<open>['text']\<close> and \<open>sendAudio\<close> for
  \<open>['text', 'audio']\<close>.
\<close>

theorem returnAudio_defaults:
  assumes "getSession_or_throw k st = Inr h"
  shows "(\<exists>pd. map_of (pendingResponses (heap (snd (sendText k tx None rid now st)) h)) rid = Some pd
            \<and> \<not> returnAudio pd
            \<and> (\<forall>data t. audio_base64 (make_result pd data t) = None))
       \<and> (\<exists>pd. map_of (pendingResponses (heap (snd (sendAudio k audio None rid now st)) h)) rid = Some pd
            \<and> returnAudio pd
            \<and> (\<forall>data t. audioDelta data \<noteq> [] \<longrightarrow>
                  audio_base64 (make_result pd data t) = Some (concat (audioDelta data))))
       \<and> (ws_readyState (heap st h) = OPEN \<longrightarrow>
            last (ws_sent (heap (snd (sendText k tx None rid now st)) h))
              = ResponseCreate (''res_'' @ rid) [''text'']
            \<and> last (ws_sent (heap (snd (sendAudio k audio None rid now st)) h))
              = ResponseCreate (''res_'' @ rid) [''text'', ''audio''])"
proof (intro conjI impI)
  note t = sendText_effect [OF assms, where tx = tx and opt = None and rid = rid and now = now]
  note a = sendAudio_effect [OF assms, where audio = audio and opt = None and rid = rid and now = now]
  show "\<exists>pd. map_of (pendingResponses (heap (snd (sendText k tx None rid now st)) h)) rid = Some pd
            \<and> \<not> returnAudio pd
            \<and> (\<forall>data t. audio_base64 (make_result pd data t) = None)"
    unfolding t(6) by (simp add: make_result_def)
  show "\<exists>pd. map_of (pendingResponses (heap (snd (sendAudio k audio None rid now st)) h)) rid = Some pd
            \<and> returnAudio pd
            \<and> (\<forall>data t. audioDelta data \<noteq> [] \<longrightarrow>
                  audio_base64 (make_result pd data t) = Some (concat (audioDelta data)))"
    unfolding a(3) by (simp add: make_result_def)
  assume op: "ws_readyState (heap st h) = OPEN"
  show "last (ws_sent (heap (snd (sendText k tx None rid now st)) h))
            = ResponseCreate (''res_'' @ rid) [''text'']"
    unfolding t(7) using op by simp
  show "last (ws_sent (heap (snd (sendAudio k audio None rid now st)) h))
            = ResponseCreate (''res_'' @ rid) [''text'', ''audio'']"
    unfolding a(4) using op by simp
qed

theorem returnAudio_defaults_witness:
  "getSession_or_throw ''s1'' ex_connected = Inr 1
   \<and> ws_readyState (heap ex_connected 1) = OPEN
   \<and> (\<exists>pd. map_of (pendingResponses (heap (snd (sendText ''s1'' ''hola'' None ''r1'' 2000 ex_connected)) 1)) ''r1'' = Some pd
            \<and> \<not> returnAudio pd
            \<and> (\<forall>data t. audio_base64 (make_result pd data t) = None))
   \<and> last (ws_sent (heap (snd (sendText ''s1'' ''hola'' None ''r1'' 2000 ex_connected)) 1))
            = ResponseCreate (''res_'' @ ''r1'') [''text'']
   \<and> (\<exists>pd. map_of (pendingResponses (heap (snd (sendAudio ''s1'' ''AAAA'' None ''r1'' 2000 ex_connected)) 1)) ''r1'' = Some pd
            \<and> returnAudio pd
            \<and> audio_base64 (make_result pd
                  \<lparr>textDelta = ''Ho'', audioDelta = [''AA'', ''BB''], inputTranscript = [],
                   eventId = None, itemId = None\<rparr> 2500) = Some ''AABB'')
   \<and> last (ws_sent (heap (snd (sendAudio ''s1'' ''AAAA'' None ''r1'' 2000 ex_connected)) 1))
            = ResponseCreate (''res_'' @ ''r1'') [''text'', ''audio'']"
proof -
  have a: "getSession_or_throw ''s1'' ex_connected = Inr 1"
    using ex_connected_available by simp
  have b: "ws_readyState (heap ex_connected 1) = OPEN"
    by (simp add: ex_connected_facts)
  from returnAudio_defaults [OF a, of "''hola''" "''r1''" 2000 "''AAAA''"]
  show ?thesis using a b by fastforce
qed

subsection \<open>Who writes \<open>lastActivityAt\<close>\<close>

text \<open>
  C7, as the code has it. \<open>createSession\<close>, when the session limit does not reject
  it, sets \<open>lastActivityAt\<close> of the new session to the time of the call, and
  \<open>sendText\<close>, \<open>sendAudio\<close> and \<open>updateInstructions\<close> set \<open>lastActivityAt\<close> of the
  session they find to the time of the call. \<open>getHistory\<close> and
  \<open>getSession\<close> leave the whole manager as it was, and \<open>closeSession\<close> leaves
  \<open>lastActivityAt\<close> of every session object as it was. No inbound event, no handler of
  the transport and no timer changes \<open>lastActivityAt\<close> of any session object.
\<close>

theorem lastActivityAt_writers:
  "(\<not> (0 < maxSessions (config st) \<and> maxSessions (config st) \<le> length (sessions st)) \<longrightarrow>
      (\<exists>h'. map_of (sessions (snd (createSession opts uuid now st)))
               (or_else (opt_sessionId opts) uuid) = Some h'
          \<and> lastActivityAt (heap (snd (createSession opts uuid now st)) h') = now))
   \<and> (getSession_or_throw k st = Inr h \<longrightarrow>
       lastActivityAt (heap (snd (sendText k tx opt rid now st)) h) = now
     \<and> lastActivityAt (heap (snd (sendAudio k audio opt rid now st)) h) = now
     \<and> lastActivityAt (heap (snd (updateInstructions k instr now st)) h) = now)
   \<and> snd (getHistory k st) = st
   \<and> snd (getSession k st) = st
   \<and> (\<forall>h'. lastActivityAt (heap (snd (closeSession k st)) h') = lastActivityAt (heap st h'))
   \<and> (\<forall>h'. lastActivityAt (heap (handleOpenAIEvent h0 ev t st) h') = lastActivityAt (heap st h'))
   \<and> (\<forall>h'. lastActivityAt (heap (ws_on_open h0 st) h') = lastActivityAt (heap st h'))
   \<and> (\<forall>h'. lastActivityAt (heap (ws_on_error h0 err st) h') = lastActivityAt (heap st h'))
   \<and> (\<forall>h'. lastActivityAt (heap (ws_on_close h0 code st) h') = lastActivityAt (heap st h'))
   \<and> (\<forall>h'. lastActivityAt (heap (fire_timer tm st) h') = lastActivityAt (heap st h'))"
  by (simp add: createSession_accepted update_conv' sendText_effect sendAudio_effect
        updateInstructions_lastActivityAt readers_keep_state closeSession_lastActivityAt
        dispatch_lastActivityAt transport_lastActivityAt fire_timer_lastActivityAt)

theorem lastActivityAt_writers_witness:
  "getSession_or_throw ''s1'' ex_replied = Inr 1
   \<and> \<not> (0 < maxSessions (config ex_replied)
          \<and> maxSessions (config ex_replied) \<le> length (sessions ex_replied))
   \<and> (\<exists>h'. map_of (sessions (snd (createSession no_options ''u2'' 7000 ex_replied)))
               (or_else (opt_sessionId no_options) ''u2'') = Some h'
          \<and> lastActivityAt (heap (snd (createSession no_options ''u2'' 7000 ex_replied)) h') = 7000)
   \<and> lastActivityAt (heap ex_replied 1) = 2000
   \<and> lastActivityAt (heap (snd (sendText ''s1'' ''hola'' None ''r2'' 7000 ex_replied)) 1) = 7000
   \<and> lastActivityAt (heap (snd (sendAudio ''s1'' ''AAAA'' None ''r2'' 7000 ex_replied)) 1) = 7000
   \<and> lastActivityAt (heap (snd (updateInstructions ''s1'' ''Be brief.'' 7000 ex_replied)) 1) = 7000
   \<and> snd (getHistory ''s1'' ex_replied) = ex_replied
   \<and> lastActivityAt (heap (handleOpenAIEvent 1 ex_text_delta 7000 ex_replied) 1) = 2000"
proof -
  have a: "getSession_or_throw ''s1'' ex_replied = Inr 1"
    using ex_replied_available by simp
  have b: "lastActivityAt (heap ex_replied 1) = 2000"
    using ex_replied_activity by simp
  have c: "\<not> (0 < maxSessions (config ex_replied)
              \<and> maxSessions (config ex_replied) \<le> length (sessions ex_replied))"
    by (simp add: ex_replied_more ex_created_facts)
  from lastActivityAt_writers [of ex_replied no_options "''u2''" 7000 "''s1''" 1 "''hola''" None
      "''r2''" "''AAAA''" "''Be brief.''" 1 ex_text_delta 7000] a b c
  show ?thesis by metis
qed

text \<open>
  C7 as stated fails for \<open>getHistory\<close>, a call of the HTTP routes: on the session
  \<open>s1\<close>, last active at 2000, it returns the two turns and leaves the manager, and so
  \<open>lastActivityAt\<close>, as it was.
\<close>

theorem getHistory_keeps_lastActivityAt:
  "lastActivityAt (heap ex_replied 1) = 2000
   \<and> fst (getHistory ''s1'' ex_replied) =
       Inr \<lparr>hist_session_id = ''s1'',
            messages =
              [\<lparr>role = ''user'', content = ''hola'', timestamp = 2500, content_type = None,
                has_audio = None\<rparr>,
               \<lparr>role = ''assistant'', content = ''Ho'', timestamp = 2500, content_type = None,
                has_audio = Some False\<rparr>],
            total = 2\<rparr>
   \<and> snd (getHistory ''s1'' ex_replied) = ex_replied
   \<and> lastActivityAt (heap (snd (getHistory ''s1'' ex_replied)) 1) = 2000"
  by (simp add: getHistory_def ex_replied_available ex_replied_facts ex_replied_activity)

subsection \<open>A transport error before the connection is up\<close>

text \<open>
  C2 at a concrete run: the session \<open>s1\<close> is still connecting and the promise of
  \<open>createSession\<close> (promise 0) is pending when its transport reports an error. The
  handler marks the session \<open>error\<close> and clears the connect timer, but the session id
  stays in the map and the promise stays pending, also after the close of the transport
  that follows: the handler compares the status with \<open>connecting\<close> after having
  assigned \<open>error\<close> to it.
\<close>

theorem ws_error_while_connecting:
  "status (heap ex_created 1) = Connecting
   \<and> promises ex_created 0 = None
   \<and> status (heap ex_connect_error 1) = Errored
   \<and> map_of (sessions ex_connect_error) ''s1'' = Some 1
   \<and> promises ex_connect_error 0 = None
   \<and> timers ex_connect_error 2 = None
   \<and> promises (ws_on_close 1 1006 ex_connect_error) 0 = None"
  by (simp add: ex_connect_error_def ws_on_error_fields ws_on_close_promises ex_created_facts)

subsection \<open>The transcript of the spoken response\<close>

text \<open>
  C3 at a concrete run: a \<open>sendAudio\<close> call receives no text delta, the transcript
  deltas \<open>Hel\<close> and \<open>lo\<close>, and the terminal event. The call resolves with the
  response text \<open>Hel\<close>: the second delta is dropped, since the guard looks at the
  text collected so far, which the first delta made non-empty.
\<close>

theorem transcript_only_first_delta:
  "promises ex_spoken 3 =
     Some (ResolvedReply
       \<lparr>response_text = ''Hel'', input_transcript = Some '''', duration_ms = 500,
        session_id = ''s1'', request_id = ''r1'', audio_base64 = None, audio_format = None,
        audio_sample_rate = None\<rparr>)"
  by (simp add: ex_spoken_def deliver_def ws_on_message_def handleOpenAIEvent_def
        ex_transcript_delta_def ex_done_def getLatestPending_def getLatestPendingId_def Let_def
        ex_audio_pending_facts write_latest_buffer_heap prim or_empty_def or_else_def
        make_result_def pending_resolve_promises)

subsection \<open>A session id that is already live\<close>




end
